theory Spec2Isabelle
  imports Complex_Main
begin

section \<open>Python values shared by both subsystems\<close>

text \<open>
  An exception is its class and its \<open>args\<close> tuple; the sources extend \<open>args\<close> with
  \<open>exc.args += (msg,)\<close> before re-raising. Every function of the sources that can raise
  returns \<open>exc + 'a\<close>, with \<open>Inl\<close> the exception that propagates.
\<close>

datatype exc_kind =
    KeyError | IndexError | TypeError | ValueError | AttributeError | AssertionError
  | EOFError | RuntimeError | ZeroDivisionError | AxisError | UnitConversionError
  | FileNotFoundError | NonFinite

datatype exc = Exc exc_kind "string list"

fun exc_kind_of :: "exc \<Rightarrow> exc_kind" where
  "exc_kind_of (Exc k a) = k"

fun exc_args :: "exc \<Rightarrow> string list" where
  "exc_args (Exc k a) = a"

text \<open>\<open>exc.args += (msg,)\<close>\<close>

fun add_arg :: "exc \<Rightarrow> string \<Rightarrow> exc" where
  "add_arg (Exc k a) msg = Exc k (a @ [msg])"

text \<open>Sequencing of two steps, the first of which may raise.\<close>

fun bnd :: "exc + 'a \<Rightarrow> ('a \<Rightarrow> exc + 'b) \<Rightarrow> exc + 'b" where
  "bnd (Inl e) f = Inl e"
| "bnd (Inr x) f = f x"

text \<open>\<open>assert cond, msg\<close>: an \<open>AssertionError\<close> whose \<open>args\<close> hold the message, if any.\<close>

definition py_assert :: "bool \<Rightarrow> string list \<Rightarrow> exc + unit" where
  "py_assert c msg = (if c then Inr () else Inl (Exc AssertionError msg))"

subsection \<open>Arrays\<close>

text \<open>
  A numpy array is its shape and its elements in row-major (C) order. Floating-point
  elements are modelled by exact reals throughout.
\<close>

record 'a ndarray =
  shape :: "nat list"
  data :: "'a list"

definition wf_array :: "'a ndarray \<Rightarrow> bool" where
  "wf_array a = (length (data a) = prod_list (shape a))"

text \<open>\<open>a.shape[0]\<close>: an \<open>IndexError\<close> on a zero-dimensional array.\<close>

definition shape0 :: "nat list \<Rightarrow> exc + nat" where
  "shape0 s = (case s of [] \<Rightarrow> Inl (Exc IndexError [''tuple index out of range''])
               | n # _ \<Rightarrow> Inr n)"

text \<open>
  Python indexing of a sequence of length \<open>n\<close>: a negative index counts from the end,
  an index outside \<open>-n \<le> i < n\<close> raises.
\<close>

definition py_index :: "nat \<Rightarrow> int \<Rightarrow> exc + nat" where
  "py_index n i =
     (let j = (if i < 0 then int n + i else i)
      in if 0 \<le> j \<and> j < int n then Inr (nat j)
         else Inl (Exc IndexError [''index out of bounds'']))"

text \<open>\<open>a[i]\<close> along axis 0: the \<open>i\<close>-th block of the array.\<close>

definition block :: "nat \<Rightarrow> nat \<Rightarrow> 'a list \<Rightarrow> 'a list" where
  "block m i xs = take m (drop (i * m) xs)"

definition getitem0 :: "'a ndarray \<Rightarrow> int \<Rightarrow> exc + 'a ndarray" where
  "getitem0 a i =
     (case shape a of
        [] \<Rightarrow> Inl (Exc IndexError [''too many indices for array''])
      | n # rest \<Rightarrow>
          bnd (py_index n i)
            (\<lambda>j. Inr \<lparr>shape = rest, data = block (prod_list rest) j (data a)\<rparr>))"

text \<open>\<open>a.reshape(-1, 1)\<close>: one column, as many rows as the array has elements.\<close>

definition reshape_col :: "'a ndarray \<Rightarrow> 'a ndarray" where
  "reshape_col a = \<lparr>shape = [length (data a), 1], data = data a\<rparr>"

text \<open>
  Broadcasting. Shapes are aligned at their last axes; two extents are compatible when
  they are equal or one of them is 1.
\<close>

fun broadcast_rev :: "nat list \<Rightarrow> nat list \<Rightarrow> nat list option" where
  "broadcast_rev [] ys = Some ys"
| "broadcast_rev xs [] = Some xs"
| "broadcast_rev (x # xs) (y # ys) =
     (if x = y \<or> y = 1 then map_option (Cons x) (broadcast_rev xs ys)
      else if x = 1 then map_option (Cons y) (broadcast_rev xs ys)
      else None)"

definition broadcast_shapes :: "nat list \<Rightarrow> nat list \<Rightarrow> nat list option" where
  "broadcast_shapes s t = map_option rev (broadcast_rev (rev s) (rev t))"

text \<open>The shape \<open>s\<close> with axes of extent 1 prepended up to the rank of \<open>t\<close>.\<close>

definition pad_shape :: "nat list \<Rightarrow> nat list \<Rightarrow> nat list" where
  "pad_shape t s = replicate (length t - length s) 1 @ s"

text \<open>
  The elements of an array of shape \<open>s\<close> viewed with shape \<open>t\<close> (same rank): an axis of
  the same extent is traversed, an axis of extent 1 is repeated.
\<close>

fun expand :: "nat list \<Rightarrow> nat list \<Rightarrow> 'a list \<Rightarrow> 'a list" where
  "expand (t # ts) (s # ss) xs =
     (if s = t then concat (map (\<lambda>i. expand ts ss (block (prod_list ss) i xs)) [0..<t])
      else concat (replicate t (expand ts ss xs)))"
| "expand ts ss xs = xs"

definition broadcast_data :: "nat list \<Rightarrow> 'a ndarray \<Rightarrow> 'a list" where
  "broadcast_data t a = expand t (pad_shape t (shape a)) (data a)"

text \<open>A binary ufunc (\<open>a * b\<close>, \<open>a + b\<close>) on two arrays.\<close>

definition nd_binop :: "('a \<Rightarrow> 'b \<Rightarrow> 'c) \<Rightarrow> 'a ndarray \<Rightarrow> 'b ndarray \<Rightarrow> exc + 'c ndarray" where
  "nd_binop f a b =
     (case broadcast_shapes (shape a) (shape b) of
        None \<Rightarrow> Inl (Exc ValueError [''operands could not be broadcast together''])
      | Some t \<Rightarrow>
          Inr \<lparr>shape = t, data = map2 f (broadcast_data t a) (broadcast_data t b)\<rparr>)"

text \<open>
  The in-place form (\<open>a *= b\<close>): the broadcast result has to fit the storage of \<open>a\<close>.
\<close>

definition nd_binop_inplace ::
  "('a \<Rightarrow> 'b \<Rightarrow> 'a) \<Rightarrow> 'a ndarray \<Rightarrow> 'b ndarray \<Rightarrow> exc + 'a ndarray" where
  "nd_binop_inplace f a b =
     (case broadcast_shapes (shape a) (shape b) of
        None \<Rightarrow> Inl (Exc ValueError [''operands could not be broadcast together''])
      | Some t \<Rightarrow>
          if t = shape a
          then Inr \<lparr>shape = t, data = map2 f (data a) (broadcast_data t b)\<rparr>
          else Inl (Exc ValueError [''non-broadcastable output operand'']))"

text \<open>An array and a Python scalar.\<close>

definition nd_scalar :: "('a \<Rightarrow> 'b) \<Rightarrow> 'a ndarray \<Rightarrow> 'b ndarray" where
  "nd_scalar f a = \<lparr>shape = shape a, data = map f (data a)\<rparr>"

subsection \<open>Strings\<close>

definition py_isspace :: "char \<Rightarrow> bool" where
  "py_isspace c = ((of_char c :: nat) \<in> {9, 10, 11, 12, 13, 28, 29, 30, 31, 32})"

text \<open>\<open>str.strip()\<close>\<close>

definition py_strip :: "string \<Rightarrow> string" where
  "py_strip s = rev (dropWhile py_isspace (rev (dropWhile py_isspace s)))"

definition upper_char :: "char \<Rightarrow> char" where
  "upper_char c =
     (let n = (of_char c :: nat) in if 97 \<le> n \<and> n \<le> 122 then char_of (n - 32) else c)"

definition lower_char :: "char \<Rightarrow> char" where
  "lower_char c =
     (let n = (of_char c :: nat) in if 65 \<le> n \<and> n \<le> 90 then char_of (n + 32) else c)"

text \<open>\<open>str.upper()\<close>, on ASCII\<close>

definition py_upper :: "string \<Rightarrow> string" where
  "py_upper s = map upper_char s"

definition is_digit :: "char \<Rightarrow> bool" where
  "is_digit c = (let n = (of_char c :: nat) in 48 \<le> n \<and> n \<le> 57)"

text \<open>
  The strings \<open>float(s)\<close> accepts (Python language reference, \<open>floatvalue\<close>): after
  stripping white space, an optional sign and then \<open>inf\<close>, \<open>infinity\<close>, \<open>nan\<close> in any
  case, or a decimal number with optional fraction and exponent, where single
  underscores may separate digits.
\<close>

fun digitpart_rest :: "string \<Rightarrow> string" where
  "digitpart_rest (c # d # cs) =
     (if is_digit c then digitpart_rest (d # cs)
      else if c = CHR ''_'' \<and> is_digit d then digitpart_rest cs
      else c # d # cs)"
| "digitpart_rest [c] = (if is_digit c then [] else [c])"
| "digitpart_rest [] = []"

definition digitpart :: "string \<Rightarrow> string option" where
  "digitpart s =
     (case s of [] \<Rightarrow> None
      | c # cs \<Rightarrow> if is_digit c then Some (digitpart_rest cs) else None)"

definition float_number :: "string \<Rightarrow> string option" where
  "float_number s =
     (case digitpart s of
        Some r \<Rightarrow>
          (case r of
             [] \<Rightarrow> Some r
           | c # r' \<Rightarrow>
               if c = CHR ''.''
               then (case digitpart r' of Some r'' \<Rightarrow> Some r'' | None \<Rightarrow> Some r')
               else Some r)
      | None \<Rightarrow>
          (case s of [] \<Rightarrow> None
           | c # r \<Rightarrow> if c = CHR ''.'' then digitpart r else None))"

definition skip_sign :: "string \<Rightarrow> string" where
  "skip_sign s =
     (case s of [] \<Rightarrow> []
      | c # cs \<Rightarrow> if c = CHR ''+'' \<or> c = CHR ''-'' then cs else s)"

definition float_exponent :: "string \<Rightarrow> string option" where
  "float_exponent s =
     (case s of [] \<Rightarrow> None
      | c # cs \<Rightarrow> if c = CHR ''e'' \<or> c = CHR ''E'' then digitpart (skip_sign cs) else None)"

definition py_float_str_ok :: "string \<Rightarrow> bool" where
  "py_float_str_ok s =
     (let t = skip_sign (py_strip s)
      in map lower_char t \<in> {''inf'', ''infinity'', ''nan''} \<or>
         (case float_number t of
            None \<Rightarrow> False
          | Some r \<Rightarrow> r = [] \<or> float_exponent r = Some []))"

section \<open>PSRFITS header data units (\<open>io/psrfits/hdu.py\<close>)\<close>

text \<open>
  A header is a mapping from keywords to values. The keywords the wrappers read are the
  fields below, each with the type the PSRFITS definition gives it; \<open>None\<close> is a
  keyword that is absent, so that \<open>header[key]\<close> raises \<open>KeyError\<close>. Only \<open>ZERO_OFF\<close>
  is kept as an untyped card value: the code expects it to hold anything.
\<close>

datatype hval = HInt int | HFloat real | HStr string | HBool bool | HUndefined

definition hget :: "'a option \<Rightarrow> string \<Rightarrow> exc + 'a" where
  "hget v key = (case v of None \<Rightarrow> Inl (Exc KeyError [key]) | Some x \<Rightarrow> Inr x)"

record fits_header =
  SIMPLE :: "bool option"
  FITSTYPE :: "string option"
  OBS_MODE :: "string option"
  ANT_X :: "real option"
  ANT_Y :: "real option"
  ANT_Z :: "real option"
  STT_IMJD :: "int option"
  STT_SMJD :: "real option"
  STT_OFFS :: "real option"
  OBSNCHAN :: "int option"
  OBSFREQ :: "real option"
  OBSBW :: "real option"
  EXTNAME :: "string option"
  NAXIS2 :: "int option"
  NBIN :: "int option"
  NCHAN :: "int option"
  NPOL :: "int option"
  ZERO_OFF :: "hval option"

text \<open>
  Whether \<open>float(v)\<close> returns for a card value; otherwise it raises. An integer card has
  at most 70 digits, which is inside the range of a float.
\<close>

fun py_float_ok :: "hval \<Rightarrow> bool" where
  "py_float_ok (HInt i) = True"
| "py_float_ok (HFloat x) = True"
| "py_float_ok (HBool b) = True"
| "py_float_ok (HStr s) = py_float_str_ok s"
| "py_float_ok HUndefined = False"

subsection \<open>Header data units and their wrappers\<close>

text \<open>
  The table of an extension (\<open>hdu.data\<close>): its length and its columns, each column an
  array whose axis 0 runs over the rows.
\<close>

record bintable =
  nrows :: nat
  columns :: "(string \<times> real ndarray) list"

record fits_hdu =
  name :: string
  header :: fits_header
  table :: bintable

text \<open>\<open>self.data.names\<close>\<close>

definition names :: "bintable \<Rightarrow> string list" where
  "names t = map fst (columns t)"

text \<open>\<open>self.data[key]\<close> for a column name\<close>

definition column :: "bintable \<Rightarrow> string \<Rightarrow> exc + real ndarray" where
  "column t key =
     (case map_of (columns t) key of
        None \<Rightarrow> Inl (Exc KeyError [key])
      | Some c \<Rightarrow> Inr c)"

text \<open>
  \<open>self.data[index]\<close> for a row index: the record whose fields are the cells of that
  row, and \<open>row[key]\<close>.
\<close>

definition cell :: "nat \<Rightarrow> real ndarray \<Rightarrow> real ndarray" where
  "cell j c = \<lparr>shape = tl (shape c), data = block (prod_list (tl (shape c))) j (data c)\<rparr>"

definition table_row :: "bintable \<Rightarrow> int \<Rightarrow> exc + (string \<times> real ndarray) list" where
  "table_row t index =
     bnd (py_index (nrows t) index)
       (\<lambda>j. Inr (map (\<lambda>(key, c). (key, cell j c)) (columns t)))"

definition row_get :: "(string \<times> real ndarray) list \<Rightarrow> string \<Rightarrow> exc + real ndarray" where
  "row_get r key =
     (case map_of r key of
        None \<Rightarrow> Inl (Exc KeyError [key])
      | Some c \<Rightarrow> Inr c)"

text \<open>A time: seconds since MJD 0 on a uniform scale, and the observatory location.\<close>

record time =
  seconds :: real
  location :: "(real \<times> real \<times> real) option"



text \<open>\<open>PSRFITSPrimaryHDU.location\<close>: \<open>None\<close> when a coordinate is missing.\<close>

definition PSRFITSPrimaryHDU_location :: "fits_hdu \<Rightarrow> (real \<times> real \<times> real) option" where
  "PSRFITSPrimaryHDU_location p =
     (case (ANT_X (header p), ANT_Y (header p), ANT_Z (header p)) of
        (Some x, Some y, Some z) \<Rightarrow> Some (x, y, z)
      | _ \<Rightarrow> None)"

text \<open>
  \<open>PSRFITSPrimaryHDU.start_time\<close>: the day \<open>STT_IMJD\<close> plus \<open>STT_SMJD + STT_OFFS\<close>
  seconds.
\<close>

definition PSRFITSPrimaryHDU_start_time :: "fits_hdu \<Rightarrow> exc + time" where
  "PSRFITSPrimaryHDU_start_time p =
     bnd (hget (STT_IMJD (header p)) ''STT_IMJD'') (\<lambda>imjd.
     bnd (hget (STT_SMJD (header p)) ''STT_SMJD'') (\<lambda>smjd.
     bnd (hget (STT_OFFS (header p)) ''STT_OFFS'') (\<lambda>offs.
     Inr \<lparr>seconds = of_int imjd * 86400 + (smjd + offs),
          location = PSRFITSPrimaryHDU_location p\<rparr>)))"

text \<open>
  \<open>PSRFITSPrimaryHDU.frequency\<close>. A missing keyword gives \<open>None\<close>; the division of the
  bandwidth by a channel count of 0 raises. The result lists the frequency of channels
  \<open>1, ..., n_chan\<close> (in MHz).
\<close>

definition PSRFITSPrimaryHDU_frequency :: "fits_hdu \<Rightarrow> exc + real list option" where
  "PSRFITSPrimaryHDU_frequency p =
     (case (OBSNCHAN (header p), OBSFREQ (header p), OBSBW (header p)) of
        (Some n_chan, Some c_freq, Some bw) \<Rightarrow>
          if n_chan = 0 then Inl (Exc ZeroDivisionError [''float division by zero''])
          else
            (let chan_bw = bw / of_int n_chan
             in Inr (Some (map (\<lambda>k. c_freq + of_int (k - (n_chan + 1) div 2) * chan_bw)
                             [1..n_chan])))
      | _ \<Rightarrow> Inr None)"

definition obs_mode :: "fits_hdu \<Rightarrow> exc + string" where
  "obs_mode p = hget (OBS_MODE (header p)) ''OBS_MODE''"

text \<open>
  A wrapped SUBINT table: the table and the wrapped primary header. The only class of
  \<open>subint_map\<close> is \<open>PSRSubintHDU\<close>, so every wrapper is one.
\<close>

record SubintHDU =
  hdu :: fits_hdu
  primary_hdu :: fits_hdu

definition subint_map :: "string list" where
  "subint_map = [''PSR'']"

definition mode :: "SubintHDU \<Rightarrow> exc + string" where
  "mode self = obs_mode (primary_hdu self)"

definition nrow :: "SubintHDU \<Rightarrow> exc + int" where
  "nrow self = hget (NAXIS2 (header (hdu self))) ''NAXIS2''"

definition nchan :: "SubintHDU \<Rightarrow> exc + int" where
  "nchan self = hget (NCHAN (header (hdu self))) ''NCHAN''"

definition npol :: "SubintHDU \<Rightarrow> exc + int" where
  "npol self = hget (NPOL (header (hdu self))) ''NPOL''"

definition nbin :: "SubintHDU \<Rightarrow> exc + int" where
  "nbin self = hget (NBIN (header (hdu self))) ''NBIN''"

text \<open>\<open>PSRSubintHDU.samples_per_frame\<close>\<close>

definition PSRSubintHDU_samples_per_frame :: "SubintHDU \<Rightarrow> int" where
  "PSRSubintHDU_samples_per_frame self = 1"

text \<open>\<open>SubintHDU.sample_shape\<close> and \<open>SubintHDU.shape\<close>\<close>

definition SubintHDU_sample_shape :: "SubintHDU \<Rightarrow> exc + int list" where
  "SubintHDU_sample_shape self =
     bnd (nbin self) (\<lambda>b. bnd (nchan self) (\<lambda>c. bnd (npol self) (\<lambda>p. Inr [b, c, p])))"


text \<open>
  \<open>PSRSubintHDU.sample_rate\<close>: the inverse of the mean of the \<open>TSUBINT\<close> column. For a
  column without rows, or with mean 0, numpy gives \<open>nan\<close> or \<open>inf\<close> and a warning;
  the reals have neither, and the model ends there with \<open>NonFinite\<close>.
\<close>

definition PSRSubintHDU_sample_rate :: "SubintHDU \<Rightarrow> exc + real" where
  "PSRSubintHDU_sample_rate self =
     bnd (column (table (hdu self)) ''TSUBINT'') (\<lambda>tsubint.
     let sample_time = sum_list (data tsubint) / real (length (data tsubint))
     in if data tsubint = [] \<or> sample_time = 0 then Inl (Exc NonFinite [''sample_rate''])
        else Inr (1 / sample_time))"

text \<open>
  The value of a cell of a scalar column. A cell that is itself an array is outside
  what the model of times covers.
\<close>

definition item :: "real ndarray \<Rightarrow> exc + real" where
  "item a =
     (case data a of
        [x] \<Rightarrow> if shape a = [] then Inr x
               else Inl (Exc TypeError [''cell of a scalar column is an array''])
      | _ \<Rightarrow> Inl (Exc TypeError [''cell of a scalar column is an array'']))"

text \<open>\<open>PSRSubintHDU.start_time\<close>\<close>

definition PSRSubintHDU_start_time :: "SubintHDU \<Rightarrow> exc + time" where
  "PSRSubintHDU_start_time self =
     bnd (PSRFITSPrimaryHDU_start_time (primary_hdu self)) (\<lambda>start_time.
     if ''OFFS_SUB'' \<in> set (names (table (hdu self)))
     then
       bnd (column (table (hdu self)) ''OFFS_SUB'') (\<lambda>offs_sub.
       bnd (getitem0 offs_sub 0) (\<lambda>first.
       bnd (item first) (\<lambda>t0.
       bnd (PSRSubintHDU_sample_rate self) (\<lambda>rate.
       let offset0 = t0 - of_int (PSRSubintHDU_samples_per_frame self) / 2 / rate
       in Inr (start_time\<lparr>seconds := seconds start_time + offset0\<rparr>)))))
     else Inr start_time)"

text \<open>
  The builtin \<open>all\<close> over an array: it iterates over axis 0 and takes the truth value
  of each item, which is ambiguous for an item with several elements.
\<close>

definition py_all :: "bool ndarray \<Rightarrow> exc + bool" where
  "py_all a =
     (case shape a of
        [] \<Rightarrow> Inl (Exc TypeError [''iteration over a 0-d array''])
      | n # rest \<Rightarrow>
          if prod_list rest = 1 then Inr (list_all id (data a))
          else Inl (Exc ValueError [''The truth value of an array is ambiguous'']))"

text \<open>\<open>np.isclose(a, b, atol=1e-1)\<close>, with the default relative tolerance\<close>

definition isclose :: "real \<Rightarrow> real \<Rightarrow> bool" where
  "isclose a b = (\<bar>a - b\<bar> \<le> 1 / 10 + (1 / 100000) * \<bar>b\<bar>)"

text \<open>\<open>np.array_equiv\<close>: \<open>False\<close> when the shapes cannot be broadcast.\<close>

definition array_equiv :: "real ndarray \<Rightarrow> real ndarray \<Rightarrow> bool" where
  "array_equiv a b =
     (case nd_binop (=) a b of Inl e \<Rightarrow> False | Inr r \<Rightarrow> list_all id (data r))"

text \<open>\<open>SubintHDU.verify\<close>, then \<open>PSRSubintHDU.verify\<close>, which calls it first.\<close>

definition SubintHDU_verify :: "SubintHDU \<Rightarrow> exc + unit" where
  "SubintHDU_verify self =
     bnd (hget (EXTNAME (header (hdu self))) ''EXTNAME'') (\<lambda>extname.
     py_assert (py_strip extname = ''SUBINT'') [''Input HDU is not a SUBINT type.''])"

definition PSRSubintHDU_verify :: "SubintHDU \<Rightarrow> exc + unit" where
  "PSRSubintHDU_verify self =
     bnd (SubintHDU_verify self) (\<lambda>_.
     bnd (mode self) (\<lambda>m.
     bnd (py_assert (py_upper m = ''PSR'') [''Header HDU is not in the folding mode.'']) (\<lambda>_.
     bnd (nbin self) (\<lambda>b.
     bnd (py_assert (b > 1) [''Invalid 'NBIN' field in the header.'']) (\<lambda>_.
     bnd (if ''DAT_FREQ'' \<in> set (names (table (hdu self)))
          then
            bnd (column (table (hdu self)) ''DAT_FREQ'') (\<lambda>freqs.
            bnd (getitem0 freqs 0) (\<lambda>f0.
            py_assert (array_equiv f0 freqs)
              [''Frequencies are not all the same for different rows.'']))
          else Inr ()) (\<lambda>_.
     bnd (column (table (hdu self)) ''TSUBINT'') (\<lambda>tsubint.
     bnd (getitem0 tsubint 0) (\<lambda>t0.
     bnd (nd_binop isclose t0 tsubint) (\<lambda>close.
     bnd (py_all close) (\<lambda>ok.
     bnd (py_assert ok [''TSUBINT differ by large amounts in different rows.'']) (\<lambda>_.
     bnd (column (table (hdu self)) ''DATA'') (\<lambda>d.
     bnd (nbin self) (\<lambda>b.
     bnd (nchan self) (\<lambda>c.
     bnd (npol self) (\<lambda>p.
     bnd (nrow self) (\<lambda>n.
     py_assert (map int (shape d) = n # rev [b, c, p])
       [''Data shape does not match with the header information.'']))))))))))))))))"

text \<open>
  \<open>SubintHDU(hdu, primary_hdu)\<close>: \<open>__new__\<close> selects the class for the observing mode
  of the primary header, \<open>__init__\<close> stores the two units and verifies.
\<close>

definition SubintHDU_new :: "fits_hdu \<Rightarrow> fits_hdu \<Rightarrow> exc + unit" where
  "SubintHDU_new h p =
     bnd (obs_mode p) (\<lambda>m.
     if m \<in> set subint_map then Inr ()
     else Inl (Exc ValueError [[CHR 0x27] @ m @ [CHR 0x27] @ '' is not a valid mode.'']))"

definition SubintHDU_init :: "fits_hdu \<Rightarrow> fits_hdu \<Rightarrow> exc + SubintHDU" where
  "SubintHDU_init h p =
     bnd (SubintHDU_new h p) (\<lambda>_.
     let self = \<lparr>hdu = h, primary_hdu = p\<rparr>
     in bnd (PSRSubintHDU_verify self) (\<lambda>_. Inr self))"

subsection \<open>Decoding one row\<close>

text \<open>
  The zero offset: \<open>header['ZERO_OFF']\<close> when the keyword is there and \<open>float\<close> accepts
  it, else 0. The value converted by \<open>float\<close> is dropped, the card value is what is
  subtracted.
\<close>

definition zero_off_of :: "fits_header \<Rightarrow> hval" where
  "zero_off_of h =
     (case ZERO_OFF h of
        None \<Rightarrow> HInt 0
      | Some v \<Rightarrow> if py_float_ok v then v else HInt 0)"

text \<open>
  \<open>array - zero_off\<close>: an integer, a float or a boolean is subtracted from every
  element; numpy has no subtraction of a string. The elements are exact reals: the
  fixed width of the dtype of the \<open>DATA\<close> column (16-bit integers in PSRFITS), in which
  numpy subtracts an integer and wraps around, is not modelled.
\<close>

fun scalar_of :: "hval \<Rightarrow> real option" where
  "scalar_of (HInt i) = Some (of_int i)"
| "scalar_of (HFloat z) = Some z"
| "scalar_of (HBool b) = Some (if b then 1 else 0)"
| "scalar_of (HStr s) = None"
| "scalar_of HUndefined = None"

definition sub_scalar :: "real ndarray \<Rightarrow> hval \<Rightarrow> exc + real ndarray" where
  "sub_scalar a v =
     (case scalar_of v of
        Some z \<Rightarrow> Inr (nd_scalar (\<lambda>x. x - z) a)
      | None \<Rightarrow> Inl (Exc TypeError [''unsupported operand type(s) for -'']))"

text \<open>The body of \<open>read_data_row\<close> after the row has been fetched.\<close>

definition decode_row ::
  "SubintHDU \<Rightarrow> (string \<times> real ndarray) list \<Rightarrow> bool \<Rightarrow> exc + real ndarray" where
  "decode_row self row weighted =
     bnd (row_get row ''DAT_SCL'') (\<lambda>scl.
     let data_scale = reshape_col scl in
     bnd (row_get row ''DAT_OFFS'') (\<lambda>offs.
     let data_off_set = reshape_col offs;
         zero_off = zero_off_of (header (hdu self)) in
     bnd (row_get row ''DATA'') (\<lambda>raw.
     bnd (sub_scalar raw zero_off) (\<lambda>shifted.
     bnd (nd_binop (*) shifted data_scale) (\<lambda>scaled.
     bnd (nd_binop (+) scaled data_off_set) (\<lambda>result.
     if weighted \<and> ''DAT_WTS'' \<in> set (names (table (hdu self)))
     then bnd (row_get row ''DAT_WTS'') (\<lambda>wts.
          nd_binop_inplace (*) result (reshape_col wts))
     else Inr result))))))"

text \<open>\<open>SubintHDU.read_data_row\<close>\<close>

definition read_data_row :: "SubintHDU \<Rightarrow> int \<Rightarrow> bool \<Rightarrow> exc + real ndarray" where
  "read_data_row self index weighted =
     bnd (nrow self) (\<lambda>n.
     if index \<ge> n
     then Inl (Exc EOFError [''cannot read from beyond end of input SUBINT HDU.''])
     else bnd (table_row (table (hdu self)) index) (\<lambda>row. decode_row self row weighted))"

text \<open>Whether a result is the end-of-stream condition.\<close>

definition is_eof :: "exc + 'a \<Rightarrow> bool" where
  "is_eof r = (case r of Inl e \<Rightarrow> exc_kind_of e = EOFError | Inr x \<Rightarrow> False)"

text \<open>
  The decoded samples of a row of one polarization: for each channel \<open>c\<close>, the bins of
  the channel, each as \<open>(r - z) * s + o\<close> with the scale and offset of the channel, and
  times the weight of the channel when weights are applied.
\<close>

definition calibrated ::
  "nat \<Rightarrow> nat \<Rightarrow> real \<Rightarrow> real list \<Rightarrow> real list \<Rightarrow> real list \<Rightarrow> real ndarray" where
  "calibrated C B z scl offs raw =
     \<lparr>shape = [1, C, B],
      data = concat (map (\<lambda>c. map (\<lambda>r. (r - z) * scl ! c + offs ! c) (block B c raw)) [0..<C])\<rparr>"

definition weighted_by :: "nat \<Rightarrow> nat \<Rightarrow> real list \<Rightarrow> real ndarray \<Rightarrow> real ndarray" where
  "weighted_by C B wts a =
     \<lparr>shape = [1, C, B],
      data = concat (map (\<lambda>c. map (\<lambda>x. x * wts ! c) (block B c (data a))) [0..<C])\<rparr>"

section \<open>Opening a PSRFITS file (\<open>io/psrfits/core.py\<close>)\<close>

text \<open>A sequence of steps over a list that stops at the first exception.\<close>

fun map_exc :: "('a \<Rightarrow> exc + 'b) \<Rightarrow> 'a list \<Rightarrow> exc + 'b list" where
  "map_exc f [] = Inr []"
| "map_exc f (x # xs) = bnd (f x) (\<lambda>y. bnd (map_exc f xs) (\<lambda>ys. Inr (y # ys)))"









section \<open>Combining streams (\<open>combining.py\<close>)\<close>

text \<open>
  The elements of the arrays that tasks combine: samples and frequencies are numbers,
  polarizations are labels, and \<open>np.broadcast_to(None, ...)\<close> makes an array of
  \<open>None\<close> objects.
\<close>

datatype elem = Num real | Str string | PyNone

text \<open>
  A metadata attribute of a stream is an array, with a unit when it is an astropy
  \<open>Quantity\<close>. \<open>getattr(ih, attr, None)\<close> is \<open>None\<close> for an attribute that is absent.
\<close>

datatype meta = Plain "elem ndarray" | Quantity string "elem ndarray"

text \<open>
  A member stream, as far as the combination reads it. The base classes of streams are
  not among the sources; \<open>ih_content\<close> holds the samples that \<open>seek\<close> and \<open>read\<close> deliver
  and \<open>ih_offset\<close> the read cursor. The dtype of a stream is its name; arrays themselves
  carry no dtype here.
\<close>

record stream =
  ih_sample_rate :: real
  ih_dtype :: string
  ih_start_time :: real
  ih_shape :: "nat list"
  ih_sample_shape :: "nat list"
  ih_frequency :: "meta option"
  ih_sideband :: "meta option"
  ih_polarization :: "meta option"
  ih_content :: "elem ndarray"
  ih_offset :: nat

definition getattr_meta :: "stream \<Rightarrow> string \<Rightarrow> meta option" where
  "getattr_meta s attr =
     (if attr = ''frequency'' then ih_frequency s
      else if attr = ''sideband'' then ih_sideband s
      else if attr = ''polarization'' then ih_polarization s
      else None)"

text \<open>\<open>getattr(value0, 'unit', None)\<close>\<close>

fun unit_of :: "meta option \<Rightarrow> string option" where
  "unit_of (Some (Quantity u a)) = Some u"
| "unit_of v = None"

text \<open>
  \<open>value.to_value(unit)\<close>. Only a \<open>Quantity\<close> has the method. The conversion factors
  between units belong to astropy and are the parameter \<open>convert\<close>: \<open>convert u' u\<close> is
  the factor from \<open>u'\<close> to \<open>u\<close>, if there is one.
\<close>

definition scale_elem :: "real \<Rightarrow> elem \<Rightarrow> elem" where
  "scale_elem f e = (case e of Num x \<Rightarrow> Num (x * f) | _ \<Rightarrow> e)"

fun to_value ::
  "(string \<Rightarrow> string \<Rightarrow> real option) \<Rightarrow> string \<Rightarrow> meta option \<Rightarrow> exc + elem ndarray" where
  "to_value convert u None =
     Inl (Exc AttributeError [''NoneType object has no attribute to_value''])"
| "to_value convert u (Some (Plain a)) =
     Inl (Exc AttributeError [''numpy.ndarray object has no attribute to_value''])"
| "to_value convert u (Some (Quantity u' a)) =
     (if u' = u then Inr a
      else case convert u' u of
             None \<Rightarrow> Inl (Exc UnitConversionError [''units are not convertible''])
           | Some f \<Rightarrow> Inr (nd_scalar (scale_elem f) a))"

text \<open>
  What \<open>np.broadcast_to\<close> makes of its first argument: \<open>None\<close> becomes a
  zero-dimensional array holding \<open>None\<close>, a \<open>Quantity\<close> loses its unit.
\<close>

fun as_array :: "meta option \<Rightarrow> elem ndarray" where
  "as_array None = \<lparr>shape = [], data = [PyNone]\<rparr>"
| "as_array (Some (Plain a)) = a"
| "as_array (Some (Quantity u a)) = a"

text \<open>\<open>np.broadcast_to(a, t)\<close>: the array must broadcast to exactly the shape \<open>t\<close>.\<close>

definition broadcast_to :: "'a ndarray \<Rightarrow> nat list \<Rightarrow> exc + 'a ndarray" where
  "broadcast_to a t =
     (if broadcast_shapes (shape a) t = Some t
      then Inr \<lparr>shape = t, data = broadcast_data t a\<rparr>
      else Inl (Exc ValueError [''operands could not be broadcast together'']))"

text \<open>
  \<open>value0.__class__(result[0], unit, copy=False)\<close>: a \<open>Quantity\<close> holds numbers only.
\<close>

definition is_num :: "elem \<Rightarrow> bool" where
  "is_num e = (case e of Num x \<Rightarrow> True | _ \<Rightarrow> False)"

definition Quantity_init :: "elem ndarray \<Rightarrow> string \<Rightarrow> exc + meta option" where
  "Quantity_init a u =
     (if list_all is_num (data a) then Inr (Some (Quantity u a))
      else Inl (Exc TypeError [''The value must be a valid Python or Numpy numeric type.'']))"

text \<open>The message that \<open>_combine_attr\<close> appends when the task fails.\<close>

definition attr_msg :: "string \<Rightarrow> string" where
  "attr_msg attr =
     ''the '' @ attr @ '' attribute of the streams cannot be combined as required''"

text \<open>
  \<open>CombineStreamsBase._combine_attr\<close>. The task is the method \<open>self.task\<close> of the
  subclass, or the callable given to \<open>CombineStreams\<close>. Only the call of the task stands
  inside the \<open>try\<close>.
\<close>

definition combine_attr ::
  "(elem ndarray list \<Rightarrow> exc + elem ndarray) \<Rightarrow> (string \<Rightarrow> string \<Rightarrow> real option) \<Rightarrow>
   stream list \<Rightarrow> string \<Rightarrow> exc + meta option" where
  "combine_attr task convert ihs attr =
     (let vals = map (\<lambda>ih. getattr_meta ih attr) ihs
      in if list_all (\<lambda>v. v = None) vals then Inr None
         else
           let value0 = hd vals; unit = unit_of value0
           in bnd (case unit of
                     None \<Rightarrow> Inr (map as_array vals)
                   | Some u \<Rightarrow> map_exc (to_value convert u) vals) (\<lambda>arrays.
              bnd (map_exc (\<lambda>(a, ih). broadcast_to a (1 # ih_sample_shape ih)) (zip arrays ihs))
                (\<lambda>blocks.
              bnd (case task blocks of
                     Inl e \<Rightarrow> Inl (add_arg e (attr_msg attr))
                   | Inr r \<Rightarrow> Inr r) (\<lambda>result.
              bnd (getitem0 result 0) (\<lambda>row0.
              case unit of
                None \<Rightarrow> Inr (Some (Plain row0))
              | Some u \<Rightarrow> Quantity_init row0 u)))))"

text \<open>
  \<open>np.empty(shape, dtype)\<close>: an array of the shape whose elements are whatever the
  memory holds, the parameter \<open>mem\<close>.
\<close>

definition np_empty :: "(nat \<Rightarrow> elem) \<Rightarrow> nat list \<Rightarrow> elem ndarray" where
  "np_empty mem s = \<lparr>shape = s, data = map mem [0..<prod_list s]\<rparr>"

definition fakes :: "(nat \<Rightarrow> nat \<Rightarrow> elem) \<Rightarrow> stream list \<Rightarrow> elem ndarray list" where
  "fakes mem ihs =
     map (\<lambda>(k, ih). np_empty (mem k) (7 # ih_sample_shape ih)) (enumerate 0 ihs)"

text \<open>The \<open>repr\<close> of a list of shape tuples, for the message of a failed probe.\<close>

fun show_nat :: "nat \<Rightarrow> string" where
  "show_nat n =
     (if n < 10 then [char_of (48 + n)]
      else show_nat (n div 10) @ [char_of (48 + n mod 10)])"

fun join :: "string \<Rightarrow> string list \<Rightarrow> string" where
  "join sep [] = []"
| "join sep [x] = x"
| "join sep (x # y # ys) = x @ sep @ join sep (y # ys)"

definition tuple_repr :: "nat list \<Rightarrow> string" where
  "tuple_repr s =
     (case s of
        [n] \<Rightarrow> ''('' @ show_nat n @ '',)''
      | _ \<Rightarrow> ''('' @ join '', '' (map show_nat s) @ '')'')"

definition shapes_msg :: "elem ndarray list \<Rightarrow> string" where
  "shapes_msg fs =
     ''streams with sample shapes ['' @ join '', '' (map (\<lambda>f. tuple_repr (tl (shape f))) fs) @
     ''] cannot be combined as required''"

text \<open>The loop of assertions over \<open>ihs[1:]\<close>.\<close>

fun check_consistency :: "stream \<Rightarrow> stream list \<Rightarrow> exc + unit" where
  "check_consistency ih0 [] = Inr ()"
| "check_consistency ih0 (ih # rest) =
     bnd (py_assert (ih_sample_rate ih = ih_sample_rate ih0) []) (\<lambda>_.
     bnd (py_assert (ih_dtype ih = ih_dtype ih0) []) (\<lambda>_.
     bnd (py_assert (ih_start_time ih = ih_start_time ih0) []) (\<lambda>_.
     bnd (shape0 (ih_shape ih)) (\<lambda>n.
     bnd (shape0 (ih_shape ih0)) (\<lambda>n0.
     bnd (py_assert (n = n0) []) (\<lambda>_.
     check_consistency ih0 rest))))))"

text \<open>
  What \<open>CombineStreamsBase.__init__\<close> hands to the constructor of its base class
  \<open>TaskBase\<close> (not among the sources): the first stream, the combined shape and the three
  combined attributes; and \<open>self.ihs\<close>.
\<close>

record combined =
  ihs :: "stream list"
  ih0 :: stream
  cs_shape :: "nat list"
  cs_frequency :: "meta option"
  cs_sideband :: "meta option"
  cs_polarization :: "meta option"

text \<open>\<open>CombineStreamsBase.__init__\<close>\<close>

definition CombineStreamsBase_init ::
  "(elem ndarray list \<Rightarrow> exc + elem ndarray) \<Rightarrow> (string \<Rightarrow> string \<Rightarrow> real option) \<Rightarrow>
   (nat \<Rightarrow> nat \<Rightarrow> elem) \<Rightarrow> stream list \<Rightarrow> exc + combined" where
  "CombineStreamsBase_init task convert mem streams =
     (case streams of
        [] \<Rightarrow> Inl (Exc IndexError [''tuple index out of range'',
                                    ''Need an iterable containing at least one stream.''])
      | first # rest \<Rightarrow>
          bnd (check_consistency first rest) (\<lambda>_.
          let fs = fakes mem streams
          in bnd (case task fs of
                    Inl e \<Rightarrow> Inl (add_arg e (shapes_msg fs))
                  | Inr a \<Rightarrow> Inr a) (\<lambda>a.
             bnd (shape0 (shape a)) (\<lambda>n.
             if n \<noteq> 7
             then Inl (Exc ValueError [''stream combination affected the sample axis (0).''])
             else
               bnd (shape0 (ih_shape first)) (\<lambda>n0.
               let shp = n0 # tl (shape a)
               in bnd (combine_attr task convert streams ''frequency'') (\<lambda>frequency.
                  bnd (combine_attr task convert streams ''sideband'') (\<lambda>sideband.
                  bnd (combine_attr task convert streams ''polarization'') (\<lambda>polarization.
                  Inr \<lparr>ihs = streams, ih0 = first, cs_shape = shp,
                       cs_frequency = frequency, cs_sideband = sideband,
                       cs_polarization = polarization\<rparr>))))))))"

subsection \<open>Concatenation\<close>

text \<open>
  \<open>np.concatenate(arrays, axis, out)\<close>. The axis is normalised against the rank of the
  first array; the other arrays must have its rank and its extents off the axis; an
  output array must have the shape of the result.
\<close>

definition normalize_axis :: "int \<Rightarrow> nat \<Rightarrow> exc + nat" where
  "normalize_axis axis ndim =
     (if - int ndim \<le> axis \<and> axis < int ndim
      then Inr (nat (if axis < 0 then axis + int ndim else axis))
      else Inl (Exc AxisError [''axis is out of bounds'']))"

definition same_off_axis :: "nat \<Rightarrow> nat list \<Rightarrow> nat list \<Rightarrow> bool" where
  "same_off_axis ax s t =
     (length s = length t \<and> take ax s = take ax t \<and> drop (Suc ax) s = drop (Suc ax) t)"

definition concat_data :: "nat \<Rightarrow> 'a ndarray list \<Rightarrow> 'a list" where
  "concat_data ax arrays =
     concat (map (\<lambda>outer.
                concat (map (\<lambda>a. block (prod_list (drop ax (shape a))) outer (data a)) arrays))
             [0..<prod_list (take ax (shape (hd arrays)))])"

text \<open>The other arrays are checked one after the other against the first.\<close>

fun check_shapes :: "nat \<Rightarrow> nat list \<Rightarrow> 'a ndarray list \<Rightarrow> exc + unit" where
  "check_shapes ax s0 [] = Inr ()"
| "check_shapes ax s0 (a # rest) =
     (if length (shape a) \<noteq> length s0
      then Inl (Exc ValueError [''all the input arrays must have same number of dimensions''])
      else if \<not> same_off_axis ax s0 (shape a)
      then Inl (Exc ValueError
             [''all the input array dimensions except for the concatenation axis must match exactly''])
      else check_shapes ax s0 rest)"

definition np_concatenate ::
  "'a ndarray list \<Rightarrow> int \<Rightarrow> 'a ndarray option \<Rightarrow> exc + 'a ndarray" where
  "np_concatenate arrays axis out =
     (case arrays of
        [] \<Rightarrow> Inl (Exc ValueError [''need at least one array to concatenate''])
      | a0 # rest \<Rightarrow>
          if shape a0 = []
          then Inl (Exc ValueError [''zero-dimensional arrays cannot be concatenated''])
          else
            bnd (normalize_axis axis (length (shape a0))) (\<lambda>ax.
            bnd (check_shapes ax (shape a0) rest) (\<lambda>_.
            let s = (shape a0)[ax := sum_list (map (\<lambda>a. shape a ! ax) arrays)]
            in case out of
                 None \<Rightarrow> Inr \<lparr>shape = s, data = concat_data ax arrays\<rparr>
               | Some buffer \<Rightarrow>
                   if shape buffer = s then Inr \<lparr>shape = s, data = concat_data ax arrays\<rparr>
                   else Inl (Exc ValueError [''Output array is the wrong shape'']))))"

text \<open>
  \<open>Concatenate.task\<close>. \<open>frame\<close> is \<open>self._frame\<close>, the buffer of the frame read last
  (\<open>None\<close> before a frame has been read), which is reused for the output when its
  leading extent is that of the first block.
\<close>

definition Concatenate_task ::
  "'a ndarray option \<Rightarrow> int \<Rightarrow> 'a ndarray list \<Rightarrow> exc + 'a ndarray" where
  "Concatenate_task frame axis blocks =
     bnd (case frame of None \<Rightarrow> Inr (- 1) | Some f \<Rightarrow> bnd (shape0 (shape f)) (\<lambda>n. Inr (int n)))
       (\<lambda>frame_n.
     bnd (case blocks of
            [] \<Rightarrow> Inl (Exc IndexError [''list index out of range''])
          | b # _ \<Rightarrow> shape0 (shape b)) (\<lambda>n.
     let out = (if frame_n = int n then frame else None)
     in np_concatenate blocks axis out))"

text \<open>
  Modelled from the spec: \<open>seek\<close> and \<open>read\<close> of the Frame-Based Stream Contract
  (\<open>seek(absolute_sample_offset)\<close>, \<open>read(n_samples)\<close> giving a block), whose
  implementation is in the base classes, not among the sources. Reading past the end
  of the stream is the end-of-stream condition.
\<close>

definition seek :: "stream \<Rightarrow> nat \<Rightarrow> stream" where
  "seek s offset = s\<lparr>ih_offset := offset\<rparr>"

definition read :: "stream \<Rightarrow> nat \<Rightarrow> exc + stream \<times> elem ndarray" where
  "read s n =
     (case shape (ih_content s) of
        [] \<Rightarrow> Inl (Exc EOFError [''cannot read from beyond end of stream''])
      | n_total # sample_shape \<Rightarrow>
          if ih_offset s + n \<le> n_total
          then Inr (s\<lparr>ih_offset := ih_offset s + n\<rparr>,
                    \<lparr>shape = n # sample_shape,
                     data = take (n * prod_list sample_shape)
                              (drop (ih_offset s * prod_list sample_shape)
                                 (data (ih_content s)))\<rparr>)
          else Inl (Exc EOFError [''cannot read from beyond end of stream'']))"

text \<open>
  \<open>CombineStreamsBase._read_frame\<close>: every member is positioned at the frame and read,
  in order; the blocks go through the task. The result comes with the members as the
  reads leave them; when a read or the task raises, the exception is all that is kept.
\<close>

fun read_members :: "nat \<Rightarrow> nat \<Rightarrow> stream list \<Rightarrow> exc + (stream list \<times> elem ndarray list)" where
  "read_members offset n [] = Inr ([], [])"
| "read_members offset n (ih # rest) =
     bnd (read (seek ih offset) n) (\<lambda>(ih', blk).
     bnd (read_members offset n rest) (\<lambda>(rest', blocks).
     Inr (ih' # rest', blk # blocks)))"

definition read_frame ::
  "(elem ndarray list \<Rightarrow> exc + elem ndarray) \<Rightarrow> nat \<Rightarrow> stream list \<Rightarrow> nat \<Rightarrow>
   exc + (stream list \<times> elem ndarray)" where
  "read_frame task samples_per_frame members frame_index =
     bnd (read_members (frame_index * samples_per_frame) samples_per_frame members)
       (\<lambda>(members', blocks).
     bnd (task blocks) (\<lambda>frame. Inr (members', frame)))"

text \<open>
  The slice \<open>a[..., lo:hi, ...]\<close> along one axis, with \<open>lo \<le> hi\<close> inside the extent of
  the axis: the operation that the round-trip property of the specification applies to
  a combined frame.
\<close>

definition slice_axis :: "nat \<Rightarrow> nat \<Rightarrow> nat \<Rightarrow> 'a ndarray \<Rightarrow> 'a ndarray" where
  "slice_axis ax lo hi a =
     (let inner = prod_list (drop (Suc ax) (shape a));
          whole = prod_list (drop ax (shape a))
      in \<lparr>shape = (shape a)[ax := hi - lo],
          data = concat (map (\<lambda>outer.
                           take ((hi - lo) * inner) (drop (lo * inner) (block whole outer (data a))))
                         [0..<prod_list (take ax (shape a))])\<rparr>)"

text \<open>
  A member differs from the first one in an attribute that the constructor compares.
\<close>

definition differs :: "stream \<Rightarrow> stream \<Rightarrow> bool" where
  "differs first ih =
     (ih_sample_rate ih \<noteq> ih_sample_rate first \<or> ih_dtype ih \<noteq> ih_dtype first \<or>
      ih_start_time ih \<noteq> ih_start_time first \<or>
      shape0 (ih_shape ih) \<noteq> shape0 (ih_shape first))"

text \<open>
  The exceptions of the consistency loop: an \<open>AssertionError\<close> without arguments, or the
  \<open>IndexError\<close> of \<open>shape[0]\<close> on an empty shape. Neither says which attribute differed.
\<close>

definition bare_failure :: "exc \<Rightarrow> bool" where
  "bare_failure e =
     (e = Exc AssertionError [] \<or> e = Exc IndexError [''tuple index out of range''])"

text \<open>A block of one sample that holds \<open>None\<close> everywhere.\<close>

definition none_block :: "nat list \<Rightarrow> elem ndarray" where
  "none_block sample_shape =
     \<lparr>shape = 1 # sample_shape, data = replicate (prod_list sample_shape) PyNone\<rparr>"

text \<open>The formula of the specification, with the ceiling it writes.\<close>

definition spec_channel_frequency :: "int \<Rightarrow> real \<Rightarrow> real \<Rightarrow> int \<Rightarrow> real" where
  "spec_channel_frequency n c b k =
     c + (of_int k - of_int \<lceil>(of_int n + 1) / (2 :: real)\<rceil>) * (b / of_int n)"

definition example_primary :: fits_header where
  "example_primary =
     \<lparr>SIMPLE = Some True, FITSTYPE = Some ''PSRFITS'', OBS_MODE = Some ''PSR'',
      ANT_X = None, ANT_Y = None, ANT_Z = None,
      STT_IMJD = Some 55000, STT_SMJD = Some 3600, STT_OFFS = Some (1 / 2),
      OBSNCHAN = Some 2, OBSFREQ = Some 1400, OBSBW = Some 4,
      EXTNAME = None, NAXIS2 = None, NBIN = None, NCHAN = None, NPOL = None,
      ZERO_OFF = None\<rparr>"

text \<open>
  A primary unit, and two SUBINT tables for it: one row of two polarizations, two
  channels and two bins; and two rows of one polarization, two channels and two bins
  with a \<open>ZERO_OFF\<close> card that holds \<open>*\<close>.
\<close>

definition no_header :: fits_header where
  "no_header =
     \<lparr>SIMPLE = None, FITSTYPE = None, OBS_MODE = None,
      ANT_X = None, ANT_Y = None, ANT_Z = None,
      STT_IMJD = None, STT_SMJD = None, STT_OFFS = None,
      OBSNCHAN = None, OBSFREQ = None, OBSBW = None,
      EXTNAME = None, NAXIS2 = None, NBIN = None, NCHAN = None, NPOL = None,
      ZERO_OFF = None\<rparr>"

definition example_primary_hdu :: fits_hdu where
  "example_primary_hdu =
     \<lparr>name = ''PRIMARY'', header = example_primary,
      table = \<lparr>nrows = 0, columns = []\<rparr>\<rparr>"

definition two_pol_hdu :: fits_hdu where
  "two_pol_hdu =
     \<lparr>name = ''SUBINT'',
      header = no_header\<lparr>EXTNAME := Some ''SUBINT'', NAXIS2 := Some 1, NBIN := Some 2,
                 NCHAN := Some 2, NPOL := Some 2\<rparr>,
      table = \<lparr>nrows = 1, columns =
        [(''TSUBINT'', \<lparr>shape = [1], data = [10]\<rparr>),
         (''OFFS_SUB'', \<lparr>shape = [1], data = [5]\<rparr>),
         (''DAT_WTS'', \<lparr>shape = [1, 2], data = [1, 1]\<rparr>),
         (''DAT_OFFS'', \<lparr>shape = [1, 4], data = [0, 0, 0, 0]\<rparr>),
         (''DAT_SCL'', \<lparr>shape = [1, 4], data = [1, 1, 1, 1]\<rparr>),
         (''DATA'', \<lparr>shape = [1, 2, 2, 2], data = [1, 2, 3, 4, 5, 6, 7, 8]\<rparr>)]\<rparr>\<rparr>"

definition two_pol_subint :: SubintHDU where
  "two_pol_subint = \<lparr>hdu = two_pol_hdu, primary_hdu = example_primary_hdu\<rparr>"

definition one_pol_hdu :: fits_hdu where
  "one_pol_hdu =
     \<lparr>name = ''SUBINT'',
      header = no_header\<lparr>EXTNAME := Some ''SUBINT  '', NAXIS2 := Some 2, NBIN := Some 2,
                 NCHAN := Some 2, NPOL := Some 1, ZERO_OFF := Some (HStr ''*'')\<rparr>,
      table = \<lparr>nrows = 2, columns =
        [(''TSUBINT'', \<lparr>shape = [2], data = [10, 10]\<rparr>),
         (''OFFS_SUB'', \<lparr>shape = [2], data = [5, 15]\<rparr>),
         (''DAT_WTS'', \<lparr>shape = [2, 2], data = [1, 0, 1, 0]\<rparr>),
         (''DAT_OFFS'', \<lparr>shape = [2, 2], data = [10, 20, 10, 20]\<rparr>),
         (''DAT_SCL'', \<lparr>shape = [2, 2], data = [2, 3, 2, 3]\<rparr>),
         (''DATA'', \<lparr>shape = [2, 1, 2, 2], data = [1, 2, 3, 4, 5, 6, 7, 8]\<rparr>)]\<rparr>\<rparr>"

definition one_pol_subint :: SubintHDU where
  "one_pol_subint = \<lparr>hdu = one_pol_hdu, primary_hdu = example_primary_hdu\<rparr>"

text \<open>The second table without its \<open>OFFS_SUB\<close> column.\<close>

definition no_offs_subint :: SubintHDU where
  "no_offs_subint =
     \<lparr>hdu = one_pol_hdu\<lparr>table := \<lparr>nrows = 2, columns =
              filter (\<lambda>(key, c). key \<noteq> ''OFFS_SUB'') (columns (table one_pol_hdu))\<rparr>\<rparr>,
      primary_hdu = example_primary_hdu\<rparr>"

text \<open>
  Streams: \<open>stream_a\<close> has two samples of two channels, \<open>stream_b\<close> two samples of three
  channels; both give frequencies in MHz and a sideband, and no polarization.
\<close>

definition stream_a :: stream where
  "stream_a =
     \<lparr>ih_sample_rate = 1, ih_dtype = ''f4'', ih_start_time = 0,
      ih_shape = [2, 2], ih_sample_shape = [2],
      ih_frequency = Some (Quantity ''MHz'' \<lparr>shape = [2], data = [Num 100, Num 200]\<rparr>),
      ih_sideband = Some (Plain \<lparr>shape = [], data = [Num 1]\<rparr>),
      ih_polarization = None,
      ih_content = \<lparr>shape = [2, 2], data = [Num 1, Num 2, Num 3, Num 4]\<rparr>,
      ih_offset = 0\<rparr>"

definition stream_b :: stream where
  "stream_b =
     \<lparr>ih_sample_rate = 1, ih_dtype = ''f4'', ih_start_time = 0,
      ih_shape = [2, 3], ih_sample_shape = [3],
      ih_frequency = Some (Quantity ''MHz'' \<lparr>shape = [3], data = [Num 300, Num 400, Num 500]\<rparr>),
      ih_sideband = Some (Plain \<lparr>shape = [], data = [Num 1]\<rparr>),
      ih_polarization = None,
      ih_content = \<lparr>shape = [2, 3], data = [Num 5, Num 6, Num 7, Num 8, Num 9, Num 10]\<rparr>,
      ih_offset = 0\<rparr>"

text \<open>No unit is convertible into another, and fresh memory holds zeros.\<close>

definition no_convert :: "string \<Rightarrow> string \<Rightarrow> real option" where
  "no_convert u' u = None"

definition zero_mem :: "nat \<Rightarrow> nat \<Rightarrow> elem" where
  "zero_mem k i = Num 0"

text \<open>The two streams concatenated along axis 1.\<close>

definition combined_ab :: combined where
  "combined_ab =
     \<lparr>ihs = [stream_a, stream_b], ih0 = stream_a, cs_shape = [2, 5],
      cs_frequency = Some (Quantity ''MHz''
        \<lparr>shape = [5], data = [Num 100, Num 200, Num 300, Num 400, Num 500]\<rparr>),
      cs_sideband = Some (Plain \<lparr>shape = [5], data = [Num 1, Num 1, Num 1, Num 1, Num 1]\<rparr>),
      cs_polarization = None\<rparr>"

text \<open>The second stream without frequencies and without a sideband.\<close>

definition stream_c :: stream where
  "stream_c = stream_b\<lparr>ih_frequency := None, ih_sideband := None\<rparr>"

text \<open>
  The first stream with a sideband of three entries, which does not broadcast to its
  sample shape of two channels.
\<close>

definition stream_d :: stream where
  "stream_d =
     stream_a\<lparr>ih_sideband := Some (Plain \<lparr>shape = [3], data = [Num 1, Num 1, Num 1]\<rparr>)\<rparr>"





section \<open>Sequencing\<close>

lemma bnd_Inr_iff: "(bnd m f = Inr y) = (\<exists>x. m = Inr x \<and> f x = Inr y)"
  by (cases m) simp_all

lemma bnd_Inl_iff: "(bnd m f = Inl e) = (m = Inl e \<or> (\<exists>x. m = Inr x \<and> f x = Inl e))"
  by (cases m) simp_all

lemma py_assert_Inr [simp]: "(py_assert c msg = Inr u) = c"
  by (simp add: py_assert_def)

lemma py_assert_False [simp]: "py_assert False msg = Inl (Exc AssertionError msg)"
  by (simp add: py_assert_def)

lemma py_assert_True [simp]: "py_assert True msg = Inr ()"
  by (simp add: py_assert_def)

lemma map_exc_zip_map:
  "map_exc (\<lambda>(a, x). g a x) (zip (map f xs) xs) = map_exc (\<lambda>x. g (f x) x) xs"
  by (induction xs) simp_all

lemma map_exc_nth:
  "map_exc f xs = Inr ys \<Longrightarrow> length ys = length xs \<and> (\<forall>k < length xs. f (xs ! k) = Inr (ys ! k))"
proof (induction xs arbitrary: ys)
  case Nil
  then show ?case by simp
next
  case (Cons x xs)
  from Cons.prems obtain y ys' where
    y: "f x = Inr y" and ys': "map_exc f xs = Inr ys'" and ys: "ys = y # ys'"
    by (auto simp: bnd_Inr_iff)
  from Cons.IH [OF ys'] y ys show ?case
    by (auto simp: nth_Cons split: nat.splits)
qed

lemma concat_replicate_replicate:
  "concat (replicate n (replicate m x)) = replicate (n * m) x"
  by (induction n) (simp_all add: replicate_add)

lemma expand_scalar:
  "expand t (replicate (length t) 1) [x] = replicate (prod_list t) x"
proof (induction t)
  case Nil
  show ?case by simp
next
  case (Cons n t)
  show ?case
  proof (cases "n = 1")
    case True
    then show ?thesis using Cons by (simp add: block_def)
  next
    case False
    then show ?thesis using Cons by (simp add: concat_replicate_replicate)
  qed
qed

lemma broadcast_shapes_scalar: "broadcast_shapes [] t = Some t"
  by (simp add: broadcast_shapes_def)

section \<open>Blocks of a row-major array\<close>

lemma length_concat_map_const:
  "(\<And>k. k < n \<Longrightarrow> length (f k) = m) \<Longrightarrow> length (concat (map f [0..<n])) = n * m"
  by (induction n) simp_all

lemma block_concat_map:
  assumes "\<And>k. k < n \<Longrightarrow> length (f k) = m" and "j < n"
  shows "block m j (concat (map f [0..<n])) = f j"
  using assms
proof (induction n)
  case 0
  then show ?case by simp
next
  case (Suc n)
  let ?xs = "concat (map f [0..<n])"
  have len: "length ?xs = n * m"
    using Suc.prems(1) by (intro length_concat_map_const) simp
  show ?case
  proof (cases "j < n")
    case True
    then have "Suc j \<le> n" by simp
    then have "Suc j * m \<le> n * m" by (rule mult_le_mono1)
    then have fits: "j * m + m \<le> length ?xs" using len by simp
    have "block m j (?xs @ f n) = block m j ?xs"
      using fits by (simp add: block_def)
    also have "\<dots> = f j" using Suc.IH Suc.prems(1) True by simp
    finally show ?thesis by simp
  next
    case False
    with Suc.prems(2) have j: "j = n" by simp
    then show ?thesis using len Suc.prems(1) [of n] by (simp add: block_def)
  qed
qed

lemma concat_blocks_take:
  "concat (map (\<lambda>k. block m k xs) [0..<n]) = take (n * m) xs"
proof (induction n)
  case 0
  show ?case by simp
next
  case (Suc n)
  have "take (n * m + m) xs = take (n * m) xs @ take m (drop (n * m) xs)"
    by (rule take_add)
  then have "take (Suc n * m) xs = take (n * m) xs @ block m n xs"
    by (simp add: block_def add.commute)
  with Suc show ?case by simp
qed

lemma concat_blocks:
  "length xs = n * m \<Longrightarrow> concat (map (\<lambda>k. block m k xs) [0..<n]) = xs"
  by (simp add: concat_blocks_take)

lemma length_block:
  assumes "length xs = n * m" and "k < n"
  shows "length (block m k xs) = m"
proof -
  have "Suc k \<le> n" using assms(2) by simp
  then have "Suc k * m \<le> n * m" by (rule mult_le_mono1)
  then show ?thesis using assms(1) by (simp add: block_def)
qed

lemma prod_list_split:
  "ax < length s \<Longrightarrow>
   prod_list s = prod_list (take ax s) * (s ! ax * prod_list (drop (Suc ax) s))"
proof -
  assume a: "ax < length s"
  have "prod_list s = prod_list (take ax s @ s ! ax # drop (Suc ax) s)"
    using id_take_nth_drop [OF a] by simp
  then show ?thesis by simp
qed

lemma prod_list_drop:
  "ax < length s \<Longrightarrow> prod_list (drop ax s) = s ! ax * prod_list (drop (Suc ax) s)"
  by (simp add: Cons_nth_drop_Suc [symmetric])

section \<open>Broadcasting a column against a row of one polarization\<close>

lemma block_map: "block m k (map f xs) = map f (block m k xs)"
  by (simp add: block_def take_map drop_map)

lemma expand_same:
  "length xs = prod_list t \<Longrightarrow> expand t t xs = xs"
proof (induction t arbitrary: xs)
  case Nil
  show ?case by simp
next
  case (Cons n t)
  have len: "length xs = n * prod_list t" using Cons.prems by simp
  have "map (\<lambda>i. expand t t (block (prod_list t) i xs)) [0..<n] =
        map (\<lambda>i. block (prod_list t) i xs) [0..<n]"
    using Cons.IH length_block [OF len] by (intro map_cong) simp_all
  then have "concat (map (\<lambda>i. expand t t (block (prod_list t) i xs)) [0..<n]) =
             concat (map (\<lambda>i. block (prod_list t) i xs) [0..<n])"
    by (rule arg_cong)
  also have "\<dots> = xs" by (rule concat_blocks [OF len])
  finally show ?case by simp
qed

lemma block_one: "k < length xs \<Longrightarrow> block (Suc 0) k xs = [xs ! k]"
  by (simp add: block_def take_Suc_conv_app_nth)

lemma expand_bins: "expand [B] [Suc 0] [x] = replicate B x"
proof (cases "B = 1")
  case True
  then show ?thesis by (simp add: block_def)
next
  case False
  have "concat (replicate B [x]) = replicate B x"
    using concat_replicate_replicate [of B 1 x] by simp
  with False show ?thesis by auto
qed

text \<open>A column of one number per channel, seen with the shape of a row of one polarization.\<close>

lemma broadcast_column:
  assumes "length xs = C"
  shows "broadcast_data [1, C, B] \<lparr>shape = [C, 1], data = xs\<rparr> =
           concat (map (\<lambda>c. replicate B (xs ! c)) [0..<C])"
proof -
  have "map (\<lambda>c. expand [B] [1] (block 1 c xs)) [0..<C] =
        map (\<lambda>c. replicate B (xs ! c)) [0..<C]"
    using assms by (intro map_cong) (simp_all add: block_one expand_bins del: expand.simps)
  then have "concat (map (\<lambda>c. expand [B] [1] (block 1 c xs)) [0..<C]) =
             concat (map (\<lambda>c. replicate B (xs ! c)) [0..<C])"
    by (rule arg_cong)
  moreover have "block C 0 xs = xs" using assms by (simp add: block_def)
  moreover have "expand [1, C, B] [1, C, 1] xs =
      concat (map (\<lambda>c. expand [B] [1] (block 1 c (block C 0 xs))) [0..<C])"
    by simp
  ultimately show ?thesis
    by (simp add: broadcast_data_def pad_shape_def del: expand.simps)
qed

lemma broadcast_shapes_column:
  "broadcast_shapes [Suc 0, C, B] [C, Suc 0] = Some [Suc 0, C, B]"
  by (simp add: broadcast_shapes_def)

lemma map2_replicate:
  "length ys = B \<Longrightarrow> map2 f ys (replicate B v) = map (\<lambda>x. f x v) ys"
  by (induction ys arbitrary: B) auto

lemma map2_channels_take:
  "C * B \<le> length xs \<Longrightarrow>
   map2 f (take (C * B) xs) (concat (map (\<lambda>c. replicate B (g c)) [0..<C])) =
   concat (map (\<lambda>c. map (\<lambda>x. f x (g c)) (block B c xs)) [0..<C])"
proof (induction C)
  case 0
  show ?case by simp
next
  case (Suc C)
  let ?ys = "concat (map (\<lambda>c. replicate B (g c)) [0..<C])"
  have le: "C * B \<le> length xs" and le2: "C * B + B \<le> length xs"
    using Suc.prems by simp_all
  have lys: "length ?ys = C * B" by (intro length_concat_map_const) simp
  have split: "take (Suc C * B) xs = take (C * B) xs @ block B C xs"
    using take_add [of "C * B" B xs] by (simp add: block_def add.commute)
  have lb: "length (block B C xs) = B" using le2 by (simp add: block_def)
  have "map2 f (take (Suc C * B) xs) (?ys @ replicate B (g C)) =
        map2 f (take (C * B) xs) ?ys @ map2 f (block B C xs) (replicate B (g C))"
    unfolding split using lys le by simp
  also have "\<dots> = concat (map (\<lambda>c. map (\<lambda>x. f x (g c)) (block B c xs)) [0..<C]) @
                    map (\<lambda>x. f x (g C)) (block B C xs)"
    using Suc.IH [OF le] map2_replicate [OF lb] by simp
  finally show ?case by simp
qed

lemma map2_channels:
  "length xs = C * B \<Longrightarrow>
   map2 f xs (concat (map (\<lambda>c. replicate B (g c)) [0..<C])) =
   concat (map (\<lambda>c. map (\<lambda>x. f x (g c)) (block B c xs)) [0..<C])"
  using map2_channels_take [of C B xs f g] by simp

text \<open>A ufunc on a row of one polarization and a column of one number per channel.\<close>

lemma binop_column:
  assumes "shape a = [1, C, B]" "length (data a) = C * B" "length xs = C"
  shows "nd_binop f a \<lparr>shape = [C, 1], data = xs\<rparr> =
           Inr \<lparr>shape = [1, C, B],
                data = concat (map (\<lambda>c. map (\<lambda>x. f x (xs ! c)) (block B c (data a))) [0..<C])\<rparr>"
    and "nd_binop_inplace f a \<lparr>shape = [C, 1], data = xs\<rparr> =
           Inr \<lparr>shape = [1, C, B],
                data = concat (map (\<lambda>c. map (\<lambda>x. f x (xs ! c)) (block B c (data a))) [0..<C])\<rparr>"
proof -
  have own: "broadcast_data [1, C, B] a = data a"
    using assms expand_same [of "data a" "[1, C, B]"]
    by (simp add: broadcast_data_def pad_shape_def del: expand.simps)
  have m: "map2 f (data a) (broadcast_data [1, C, B] \<lparr>shape = [C, 1], data = xs\<rparr>) =
           concat (map (\<lambda>c. map (\<lambda>x. f x (xs ! c)) (block B c (data a))) [0..<C])"
    unfolding broadcast_column [OF assms(3)] by (rule map2_channels [OF assms(2)])
  show "nd_binop f a \<lparr>shape = [C, 1], data = xs\<rparr> =
           Inr \<lparr>shape = [1, C, B],
                data = concat (map (\<lambda>c. map (\<lambda>x. f x (xs ! c)) (block B c (data a))) [0..<C])\<rparr>"
    using assms(1) own m by (simp add: nd_binop_def broadcast_shapes_column)
  show "nd_binop_inplace f a \<lparr>shape = [C, 1], data = xs\<rparr> =
           Inr \<lparr>shape = [1, C, B],
                data = concat (map (\<lambda>c. map (\<lambda>x. f x (xs ! c)) (block B c (data a))) [0..<C])\<rparr>"
    using assms(1) m by (simp add: nd_binop_inplace_def broadcast_shapes_column)
qed

lemma length_channels:
  "length xs = C * B \<Longrightarrow>
   length (concat (map (\<lambda>c. map (h c) (block B c xs)) [0..<C])) = C * B"
  using length_block [of xs C B] by (intro length_concat_map_const) simp

lemma block_channels:
  assumes "length xs = C * B" "c < C"
  shows "block B c (concat (map (\<lambda>c. map (h c) (block B c xs)) [0..<C])) = map (h c) (block B c xs)"
  using length_block [OF assms(1)] assms(2)
  by (intro block_concat_map [where f = "\<lambda>c. map (h c) (block B c xs)"]) simp_all

lemma channels_twice:
  assumes "length xs = C * B"
  shows "concat (map (\<lambda>c. map (h2 c)
           (block B c (concat (map (\<lambda>c. map (h1 c) (block B c xs)) [0..<C])))) [0..<C]) =
         concat (map (\<lambda>c. map (\<lambda>x. h2 c (h1 c x)) (block B c xs)) [0..<C])"
proof -
  have "map (\<lambda>c. map (h2 c)
           (block B c (concat (map (\<lambda>c. map (h1 c) (block B c xs)) [0..<C])))) [0..<C] =
        map (\<lambda>c. map (\<lambda>x. h2 c (h1 c x)) (block B c xs)) [0..<C]"
    by (intro map_cong) (simp_all add: block_channels [OF assms] comp_def)
  then show ?thesis by (rule arg_cong)
qed

section \<open>Decoding a row\<close>

text \<open>
  C1, on a row of two polarizations, two channels and two bins with unit scales and
  zero offsets. The table passes the verification of its wrapper. The data of the row
  has shape \<open>(2, 2, 2)\<close>, the four scales are reshaped to \<open>(4, 1)\<close>, the two shapes cannot
  be broadcast, and \<open>read_data_row\<close> raises instead of returning \<open>(r - z) * s + o\<close>.
\<close>

theorem read_data_row_two_pol:
  "SubintHDU_init two_pol_hdu example_primary_hdu = Inr two_pol_subint \<and>
   row_get (map (\<lambda>(key, c). (key, cell 0 c)) (columns (table two_pol_hdu))) ''DATA''
     = Inr \<lparr>shape = [2, 2, 2], data = [1, 2, 3, 4, 5, 6, 7, 8]\<rparr> \<and>
   row_get (map (\<lambda>(key, c). (key, cell 0 c)) (columns (table two_pol_hdu))) ''DAT_SCL''
     = Inr \<lparr>shape = [4], data = [1, 1, 1, 1]\<rparr> \<and>
   broadcast_shapes [2, 2, 2] [4, 1] = None \<and>
   read_data_row two_pol_subint 0 False =
     Inl (Exc ValueError [''operands could not be broadcast together''])"
  by code_simp

text \<open>
  Where the row has one polarization the reshaped columns do broadcast, and the row is
  decoded as C1 says: with \<open>C\<close> channels of \<open>B\<close> bins, \<open>C\<close> scales and \<open>C\<close> offsets, and a
  zero offset that is a number \<open>z\<close>, the result is \<open>(r - z) * s + o\<close> channel by channel,
  and that times the weight of the channel when weighting is asked for and the table
  has a \<open>DAT_WTS\<close> column of \<open>C\<close> weights.
\<close>

lemma decode_row_one_pol:
  assumes raw: "row_get row ''DATA'' = Inr raw" "shape raw = [1, C, B]"
      "length (data raw) = C * B"
    and scl: "row_get row ''DAT_SCL'' = Inr scl" "length (data scl) = C"
    and offs: "row_get row ''DAT_OFFS'' = Inr offs" "length (data offs) = C"
    and z: "scalar_of (zero_off_of (header (hdu self))) = Some z"
  shows "\<not> (weighted \<and> ''DAT_WTS'' \<in> set (names (table (hdu self)))) \<Longrightarrow>
           decode_row self row weighted =
             Inr (calibrated C B z (data scl) (data offs) (data raw))"
    and "weighted \<and> ''DAT_WTS'' \<in> set (names (table (hdu self))) \<Longrightarrow>
         row_get row ''DAT_WTS'' = Inr wts \<Longrightarrow> length (data wts) = C \<Longrightarrow>
           decode_row self row weighted =
             Inr (weighted_by C B (data wts)
                    (calibrated C B z (data scl) (data offs) (data raw)))"
proof -
  let ?shifted = "nd_scalar (\<lambda>x. x - z) raw"
  have s0: "sub_scalar raw (zero_off_of (header (hdu self))) = Inr ?shifted"
    using z by (simp add: sub_scalar_def)
  have sh: "shape ?shifted = [1, C, B]" "length (data ?shifted) = C * B"
    using raw by (simp_all add: nd_scalar_def)
  let ?d1 = "concat (map (\<lambda>c. map (\<lambda>x. x * data scl ! c) (block B c (data ?shifted))) [0..<C])"
  let ?scaled = "\<lparr>shape = [1, C, B], data = ?d1\<rparr>"
  have s1: "nd_binop (*) ?shifted (reshape_col scl) = Inr ?scaled"
    using binop_column(1) [OF sh scl(2), of "(*)"] scl(2) by (simp add: reshape_col_def)
  have l1: "length ?d1 = C * B" by (rule length_channels [OF sh(2)])
  let ?d2 = "concat (map (\<lambda>c. map (\<lambda>x. x + data offs ! c) (block B c ?d1)) [0..<C])"
  have s2: "nd_binop (+) ?scaled (reshape_col offs) = Inr \<lparr>shape = [1, C, B], data = ?d2\<rparr>"
    using binop_column(1) [of ?scaled C B "data offs" "(+)"] l1 offs(2)
    by (simp add: reshape_col_def)
  have d2: "?d2 = concat (map (\<lambda>c. map (\<lambda>x. x * data scl ! c + data offs ! c)
                     (block B c (data ?shifted))) [0..<C])"
    by (rule channels_twice [OF sh(2)])
  have d3: "\<dots> = data (calibrated C B z (data scl) (data offs) (data raw))"
    by (simp add: calibrated_def nd_scalar_def block_map comp_def)
  have res: "\<lparr>shape = [1, C, B], data = ?d2\<rparr> =
             calibrated C B z (data scl) (data offs) (data raw)"
    using d2 d3 by (simp add: calibrated_def)
  have plain: "bnd (nd_binop (*) ?shifted (reshape_col scl))
                 (\<lambda>scaled. nd_binop (+) scaled (reshape_col offs)) =
               Inr (calibrated C B z (data scl) (data offs) (data raw))"
    using s1 s2 res by simp
  show "decode_row self row weighted =
             Inr (calibrated C B z (data scl) (data offs) (data raw))"
    if "\<not> (weighted \<and> ''DAT_WTS'' \<in> set (names (table (hdu self))))"
    unfolding decode_row_def Let_def
    by (simp only: raw(1) scl(1) offs(1) s0 s1 s2 res bnd.simps that if_False simp_thms)
  show "decode_row self row weighted =
             Inr (weighted_by C B (data wts)
                    (calibrated C B z (data scl) (data offs) (data raw)))"
    if w: "weighted \<and> ''DAT_WTS'' \<in> set (names (table (hdu self)))"
      and wts: "row_get row ''DAT_WTS'' = Inr wts" "length (data wts) = C"
  proof -
    let ?cal = "calibrated C B z (data scl) (data offs) (data raw)"
    have c: "shape ?cal = [1, C, B]" "length (data ?cal) = C * B"
      using length_channels [OF raw(3)] by (simp_all add: calibrated_def)
    have "nd_binop_inplace (*) ?cal (reshape_col wts) = Inr (weighted_by C B (data wts) ?cal)"
      using binop_column(2) [OF c wts(2), of "(*)"] wts(2)
      by (simp add: reshape_col_def weighted_by_def)
    then show ?thesis
      unfolding decode_row_def Let_def
      by (simp only: raw(1) scl(1) offs(1) wts(1) s0 s1 s2 res bnd.simps w if_True simp_thms)
  qed
qed

lemma row_get_cell:
  "column t key = Inr c \<Longrightarrow>
   row_get (map (\<lambda>(key, c). (key, cell j c)) (columns t)) key = Inr (cell j c)"
proof -
  assume "column t key = Inr c"
  then have m: "map_of (columns t) key = Some c"
    by (simp add: column_def split: option.splits)
  have "map_of (map (\<lambda>(key, c). (key, cell j c)) (columns t)) key =
        map_option (cell j) (map_of (columns t) key)"
    by (induction "columns t" arbitrary: t) (auto simp: map_of_map)
  with m show ?thesis by (simp add: row_get_def)
qed

text \<open>
  Row \<open>j\<close> of a table of \<open>n\<close> rows of one polarization, \<open>C\<close> channels and \<open>B\<close> bins,
  read without weighting.
\<close>

lemma read_data_row_one_pol:
  assumes n: "nrow self = Inr (int n)" "nrows (table (hdu self)) = n" "j < n"
    and d: "column (table (hdu self)) ''DATA'' = Inr d" "shape d = [n, 1, C, B]"
      "length (data d) = n * (C * B)"
    and s: "column (table (hdu self)) ''DAT_SCL'' = Inr s" "prod_list (tl (shape s)) = C"
      "length (data s) = n * C"
    and f: "column (table (hdu self)) ''DAT_OFFS'' = Inr f" "prod_list (tl (shape f)) = C"
      "length (data f) = n * C"
    and z: "scalar_of (zero_off_of (header (hdu self))) = Some z"
  shows "read_data_row self (int j) False =
           Inr (calibrated C B z (block C j (data s)) (block C j (data f))
                  (block (C * B) j (data d)))"
proof -
  let ?row = "map (\<lambda>(key, c). (key, cell j c)) (columns (table (hdu self)))"
  have row: "table_row (table (hdu self)) (int j) = Inr ?row"
    using n by (simp add: table_row_def py_index_def)
  have r1: "row_get ?row ''DATA'' = Inr (cell j d)" by (rule row_get_cell [OF d(1)])
  have r2: "row_get ?row ''DAT_SCL'' = Inr (cell j s)" by (rule row_get_cell [OF s(1)])
  have r3: "row_get ?row ''DAT_OFFS'' = Inr (cell j f)" by (rule row_get_cell [OF f(1)])
  have c1: "shape (cell j d) = [1, C, B]" using d(2) by (simp add: cell_def)
  have c2: "length (data (cell j d)) = C * B"
    using length_block [OF d(3) n(3)] d(2) by (simp add: cell_def)
  have c3: "length (data (cell j s)) = C"
    using length_block [OF s(3) n(3)] s(2) by (simp add: cell_def)
  have c4: "length (data (cell j f)) = C"
    using length_block [OF f(3) n(3)] f(2) by (simp add: cell_def)
  have "decode_row self ?row False =
          Inr (calibrated C B z (data (cell j s)) (data (cell j f)) (data (cell j d)))"
    by (rule decode_row_one_pol(1) [OF r1 c1 c2 r2 c3 r3 c4 z]) simp
  moreover have "data (cell j s) = block C j (data s)" "data (cell j f) = block C j (data f)"
    "data (cell j d) = block (C * B) j (data d)"
    using s(2) f(2) d(2) by (simp_all add: cell_def)
  ultimately show ?thesis
    using n row by (simp add: read_data_row_def)
qed

text \<open>The second row of the table of two rows, whose \<open>ZERO_OFF\<close> card holds \<open>*\<close>.\<close>

lemma read_data_row_one_pol_example:
  "read_data_row one_pol_subint 1 False =
     Inr (calibrated 2 2 0 [2, 3] [10, 20] [5, 6, 7, 8]) \<and>
   calibrated 2 2 0 [2, 3] [10, 20] [5, 6, 7, 8] =
     \<lparr>shape = [1, 2, 2], data = [20, 22, 41, 44]\<rparr>"
  by code_simp

text \<open>
  The zero offset is 0 when the keyword is absent or \<open>float\<close> rejects its value, and the
  value itself when that is a number.
\<close>

lemma zero_off_absent:
  "ZERO_OFF h = None \<Longrightarrow> zero_off_of h = HInt 0"
  by (simp add: zero_off_of_def)

lemma zero_off_not_numeric:
  "ZERO_OFF h = Some v \<Longrightarrow> \<not> py_float_ok v \<Longrightarrow> zero_off_of h = HInt 0"
  by (simp add: zero_off_of_def)

lemma zero_off_number:
  "ZERO_OFF h = Some v \<Longrightarrow> scalar_of v = Some z \<Longrightarrow> zero_off_of h = v"
  by (cases v) (simp_all add: zero_off_of_def)

lemma star_not_numeric: "\<not> py_float_ok (HStr ''*'')"
  by code_simp

text \<open>
  A \<open>ZERO_OFF\<close> card that holds the string \<open>1.5\<close>: \<open>float\<close> accepts it, the string itself
  stays in \<open>zero_off\<close>, and the subtraction raises.
\<close>

lemma read_data_row_numeric_string:
  "read_data_row
     (one_pol_subint\<lparr>hdu := one_pol_hdu\<lparr>header :=
        (header one_pol_hdu)\<lparr>ZERO_OFF := Some (HStr ''1.5'')\<rparr>\<rparr>\<rparr>) 0 False =
   Inl (Exc TypeError [''unsupported operand type(s) for -''])"
  by code_simp

section \<open>Shape of a combined stream\<close>

lemma check_consistency_lengths:
  "check_consistency first rest = Inr u \<Longrightarrow> shape0 (ih_shape first) = Inr n0 \<Longrightarrow>
   list_all (\<lambda>ih. shape0 (ih_shape ih) = Inr n0) rest"
  by (induction rest) (auto simp: bnd_Inr_iff)

text \<open>
  C2. When the constructor accepts a group, the task has mapped the probe blocks of 7
  samples to an array \<open>a\<close> whose extent along axis 0 is 7; the combined shape is the
  length \<open>n\<close> along axis 0 that every member has, followed by the shape of \<open>a\<close> without
  its axis 0. When the task maps the probe to an array whose extent along axis 0 is
  not 7 (or that has no axis), the constructor fails.
\<close>

theorem combined_shape:
  "(CombineStreamsBase_init task convert mem streams = Inr self \<longrightarrow>
      (\<exists>a n. task (fakes mem streams) = Inr a \<and> shape0 (shape a) = Inr 7 \<and>
             cs_shape self = n # tl (shape a) \<and>
             list_all (\<lambda>ih. shape0 (ih_shape ih) = Inr n) streams)) \<and>
   (task (fakes mem streams) = Inr a' \<and> shape0 (shape a') \<noteq> Inr 7 \<longrightarrow>
      (\<exists>e. CombineStreamsBase_init task convert mem streams = Inl e))"
proof (intro conjI impI)
  assume ok: "CombineStreamsBase_init task convert mem streams = Inr self"
  then obtain first rest where s: "streams = first # rest"
    by (cases streams) (simp_all add: CombineStreamsBase_init_def)
  from ok s obtain a n0 where
    c: "check_consistency first rest = Inr ()" and
    t: "task (fakes mem streams) = Inr a" and
    n: "shape0 (shape a) = Inr 7" and
    n0: "shape0 (ih_shape first) = Inr n0" and
    shp: "cs_shape self = n0 # tl (shape a)"
    by (auto simp: CombineStreamsBase_init_def Let_def bnd_Inr_iff
        split: sum.splits if_splits)
  have "list_all (\<lambda>ih. shape0 (ih_shape ih) = Inr n0) streams"
    using check_consistency_lengths [OF c n0] n0 s by simp
  with t n shp
  show "\<exists>a n. task (fakes mem streams) = Inr a \<and> shape0 (shape a) = Inr 7 \<and>
             cs_shape self = n # tl (shape a) \<and>
             list_all (\<lambda>ih. shape0 (ih_shape ih) = Inr n) streams"
    by blast
next
  assume bad: "task (fakes mem streams) = Inr a' \<and> shape0 (shape a') \<noteq> Inr 7"
  show "\<exists>e. CombineStreamsBase_init task convert mem streams = Inl e"
  proof (cases "CombineStreamsBase_init task convert mem streams")
    case (Inl e)
    then show ?thesis by blast
  next
    case (Inr self)
    then obtain first rest where s: "streams = first # rest"
      by (cases streams) (simp_all add: CombineStreamsBase_init_def)
    from Inr s have "shape0 (shape a') = Inr 7"
      using bad
      by (auto simp: CombineStreamsBase_init_def Let_def bnd_Inr_iff
          split: sum.splits if_splits)
    with bad show ?thesis by simp
  qed
qed

text \<open>
  Concatenation of two and three channels along axis 1 is accepted; concatenation of a
  stream with itself along axis 0 turns the 7 probe samples into 14 and is refused.
\<close>

theorem combined_shape_witness:
  "(\<exists>a n. Concatenate_task None 1 (fakes zero_mem [stream_a, stream_b]) = Inr a \<and>
      shape0 (shape a) = Inr 7 \<and> cs_shape combined_ab = n # tl (shape a) \<and>
      list_all (\<lambda>ih. shape0 (ih_shape ih) = Inr n) [stream_a, stream_b]) \<and>
   (\<exists>e. CombineStreamsBase_init (Concatenate_task None 0) no_convert zero_mem
          [stream_a, stream_a] = Inl e)"
proof -
  have h1: "CombineStreamsBase_init (Concatenate_task None 1) no_convert zero_mem
              [stream_a, stream_b] = Inr combined_ab"
    by code_simp
  have h2: "Concatenate_task None 0 (fakes zero_mem [stream_a, stream_a]) =
              Inr \<lparr>shape = [14, 2], data = replicate 28 (Num 0)\<rparr> \<and>
            shape0 (shape \<lparr>shape = [14, 2], data = replicate 28 (Num 0)\<rparr>) \<noteq> Inr 7"
    by code_simp
  show ?thesis
    using combined_shape [where task = "Concatenate_task None 1" and convert = no_convert
        and mem = zero_mem and streams = "[stream_a, stream_b]" and self = combined_ab]
      combined_shape [where task = "Concatenate_task None 0" and convert = no_convert
        and mem = zero_mem and streams = "[stream_a, stream_a]"
        and a' = "\<lparr>shape = [14, 2], data = replicate 28 (Num 0)\<rparr>"]
      h1 h2
    by blast
qed

text \<open>
  For a consistent group the failure of the second part is the \<open>ValueError\<close> of the
  check on the sample axis.
\<close>

lemma probe_length_refused:
  assumes "check_consistency first rest = Inr ()"
    and "task (fakes mem (first # rest)) = Inr a" and "shape0 (shape a) = Inr n" and "n \<noteq> 7"
  shows "CombineStreamsBase_init task convert mem (first # rest) =
           Inl (Exc ValueError [''stream combination affected the sample axis (0).''])"
  using assms by (simp add: CombineStreamsBase_init_def Let_def)

section \<open>Channel frequencies of the primary header\<close>

lemma nth_upto_from_one:
  assumes "1 \<le> k" "k \<le> n"
  shows "[1..n] ! nat (k - 1) = k"
proof -
  have "[1..n] ! nat (k - 1) = 1 + int (nat (k - 1))"
    using assms by (intro nth_upto) simp
  then show ?thesis using assms by simp
qed

text \<open>
  C3 (as the code has it). With channel count \<open>n\<close>, centre frequency \<open>c\<close> and bandwidth
  \<open>b\<close> in the header, the frequency of channel \<open>k\<close> (\<open>1 \<le> k \<le> n\<close>) is
  \<open>c + (k - (n + 1) div 2) * (b / n)\<close>: the reference channel is the floor of
  \<open>(n + 1) / 2\<close>, not its ceiling.
\<close>

theorem frequency_channel_floor:
  assumes "OBSNCHAN (header p) = Some n" "OBSFREQ (header p) = Some c"
    and "OBSBW (header p) = Some b"
    and "1 \<le> k" "k \<le> n"
  shows "\<exists>fs. PSRFITSPrimaryHDU_frequency p = Inr (Some fs) \<and> int (length fs) = n \<and>
           fs ! nat (k - 1) = c + (of_int k - of_int ((n + 1) div 2)) * (b / of_int n)"
proof -
  let ?fs = "map (\<lambda>k. c + of_int (k - (n + 1) div 2) * (b / of_int n)) [1..n]"
  have n0: "n \<noteq> 0" using assms by linarith
  have run: "PSRFITSPrimaryHDU_frequency p = Inr (Some ?fs)"
    using assms(1-3) n0 by (simp add: PSRFITSPrimaryHDU_frequency_def)
  have len: "int (length ?fs) = n" using assms by simp
  have idx: "nat (k - 1) < length [1..n]" using assms by simp
  have "?fs ! nat (k - 1) = c + of_int (k - (n + 1) div 2) * (b / of_int n)"
    using nth_map [OF idx] nth_upto_from_one [OF assms(4,5)] by simp
  with run len show ?thesis by simp
qed

text \<open>Channel 2 of two channels with centre 1400 and bandwidth 4.\<close>

theorem frequency_channel_floor_witness:
  "\<exists>fs. PSRFITSPrimaryHDU_frequency example_primary_hdu = Inr (Some fs) \<and> int (length fs) = 2 \<and>
     fs ! nat (2 - 1) = 1400 + (of_int 2 - of_int ((2 + 1) div 2)) * (4 / of_int 2)"
  using frequency_channel_floor [of example_primary_hdu 2 1400 4 2]
  by (simp add: example_primary_hdu_def example_primary_def)

text \<open>
  C3 (as the specification writes it) fails for an even channel count: with two channels,
  centre 1400 and bandwidth 4, channel 1 is at 1400, where the ceiling formula gives 1398.
\<close>

theorem frequency_channel_ceiling_counterexample:
  "PSRFITSPrimaryHDU_frequency example_primary_hdu = Inr (Some [1400, 1402]) \<and>
   spec_channel_frequency 2 1400 4 1 = 1398 \<and>
   [1400, 1402 :: real] ! nat (1 - 1) \<noteq> spec_channel_frequency 2 1400 4 1"
proof -
  have u: "[1..2] = [1, 2 :: int]" by (simp add: upto.simps)
  have c: "\<lceil>(3 :: real) / 2\<rceil> = 2" by (simp add: ceiling_eq_iff)
  have a: "PSRFITSPrimaryHDU_frequency example_primary_hdu = Inr (Some [1400, 1402])"
    by (simp add: PSRFITSPrimaryHDU_frequency_def example_primary_hdu_def example_primary_def u)
  have b: "spec_channel_frequency 2 1400 4 1 = 1398"
    by (simp add: spec_channel_frequency_def c)
  show ?thesis using a b by simp
qed

section \<open>Consistency of a stream group\<close>

lemma shape0_cases:
  "shape0 s = Inl (Exc IndexError [''tuple index out of range'']) \<or> (\<exists>n. shape0 s = Inr n)"
  by (cases s) (simp_all add: shape0_def)

lemma check_consistency_step:
  "differs first ih \<Longrightarrow> \<exists>e. check_consistency first (ih # rest) = Inl e \<and> bare_failure e"
  using shape0_cases [of "ih_shape ih"] shape0_cases [of "ih_shape first"]
  by (auto simp: differs_def bare_failure_def py_assert_def)

lemma check_consistency_bare:
  "check_consistency first rest = Inl e \<Longrightarrow> bare_failure e"
proof (induction rest)
  case Nil
  then show ?case by simp
next
  case (Cons ih rest)
  then show ?case
    using shape0_cases [of "ih_shape ih"] shape0_cases [of "ih_shape first"]
    by (auto simp: bnd_Inl_iff bare_failure_def py_assert_def split: if_splits)
qed

lemma check_consistency_differs:
  "list_ex (differs first) rest \<Longrightarrow> \<exists>e. check_consistency first rest = Inl e"
proof (induction rest)
  case Nil
  then show ?case by simp
next
  case (Cons ih rest)
  show ?case
  proof (cases "differs first ih")
    case True
    then show ?thesis using check_consistency_step by blast
  next
    case False
    with Cons obtain e where e: "check_consistency first rest = Inl e" by auto
    show ?thesis
    proof (cases "check_consistency first (ih # rest)")
      case (Inl a)
      then show ?thesis by blast
    next
      case (Inr u)
      then have "check_consistency first rest = Inr ()"
        by (auto simp: bnd_Inr_iff)
      with e show ?thesis by simp
    qed
  qed
qed

text \<open>
  C4 (as the code has it). When a member of the group differs from the first one in
  sample rate, dtype, start time or length along axis 0, the constructor fails: with
  the \<open>AssertionError\<close> of a bare \<open>assert\<close>, which has no message, or with the \<open>IndexError\<close>
  of \<open>shape[0]\<close> when a shape compared on the way is empty.
\<close>

theorem init_mismatch_fails:
  assumes "list_ex (differs first) rest"
  shows "\<exists>e. CombineStreamsBase_init task convert mem (first # rest) = Inl e \<and> bare_failure e"
proof -
  obtain e where e: "check_consistency first rest = Inl e"
    using check_consistency_differs [OF assms] by blast
  then have "bare_failure e" by (rule check_consistency_bare)
  with e show ?thesis by (simp add: CombineStreamsBase_init_def)
qed

text \<open>A member with another dtype.\<close>

theorem init_mismatch_fails_witness:
  "\<exists>e. CombineStreamsBase_init (Concatenate_task None 1) no_convert zero_mem
         (stream_a # [stream_b\<lparr>ih_dtype := ''c8''\<rparr>]) = Inl e \<and> bare_failure e"
proof -
  have d: "list_ex (differs stream_a) [stream_b\<lparr>ih_dtype := ''c8''\<rparr>]"
    by (simp add: differs_def stream_a_def stream_b_def)
  show ?thesis by (rule init_mismatch_fails [OF d])
qed

text \<open>
  C4 (as the specification writes it) asks for an exception that identifies the
  attribute. A different sample rate, dtype, start time or length all raise the same
  exception, \<open>AssertionError()\<close>, which identifies nothing.
\<close>

theorem init_mismatch_not_identified:
  "CombineStreamsBase_init (Concatenate_task None 1) no_convert zero_mem
     [stream_a, stream_b\<lparr>ih_sample_rate := 2\<rparr>] = Inl (Exc AssertionError []) \<and>
   CombineStreamsBase_init (Concatenate_task None 1) no_convert zero_mem
     [stream_a, stream_b\<lparr>ih_dtype := ''c8''\<rparr>] = Inl (Exc AssertionError []) \<and>
   CombineStreamsBase_init (Concatenate_task None 1) no_convert zero_mem
     [stream_a, stream_b\<lparr>ih_start_time := 1\<rparr>] = Inl (Exc AssertionError []) \<and>
   CombineStreamsBase_init (Concatenate_task None 1) no_convert zero_mem
     [stream_a, stream_b\<lparr>ih_shape := [3, 3]\<rparr>] = Inl (Exc AssertionError [])"
  by (simp add: CombineStreamsBase_init_def stream_a_def stream_b_def shape0_def)

section \<open>Combining a metadata attribute\<close>

lemma broadcast_to_none:
  "broadcast_to (as_array None) (1 # s) = Inr (none_block s)"
  using expand_scalar [of "1 # s" PyNone]
  by (simp add: broadcast_to_def broadcast_shapes_scalar broadcast_data_def pad_shape_def
      none_block_def)

lemma attr_msg_not_to_value:
  "to_value convert u v = Inl e \<Longrightarrow> attr_msg attr \<notin> set (exc_args e)"
  by (cases "(convert, u, v)" rule: to_value.cases)
     (auto simp: attr_msg_def split: if_splits option.splits)

lemma map_exc_to_value_fails:
  "None \<in> set vals \<Longrightarrow>
   \<exists>e. map_exc (to_value convert u) vals = Inl e \<and> attr_msg attr \<notin> set (exc_args e)"
proof (induction vals)
  case Nil
  then show ?case by simp
next
  case (Cons v vals)
  show ?case
  proof (cases "to_value convert u v")
    case (Inl e)
    then show ?thesis using attr_msg_not_to_value [OF Inl] by simp
  next
    case (Inr a)
    then have "v \<noteq> None" by (cases v) auto
    with Cons.prems have "None \<in> set vals" by auto
    from Cons.IH [OF this] Inr show ?thesis by auto
  qed
qed

lemma map_exc_Inl:
  "map_exc f xs = Inl e \<Longrightarrow> \<exists>x \<in> set xs. f x = Inl e"
proof (induction xs)
  case Nil
  then show ?case by simp
next
  case (Cons x xs)
  show ?case
  proof (cases "f x")
    case (Inl e')
    with Cons.prems show ?thesis by simp
  next
    case (Inr y)
    with Cons.prems have "map_exc f xs = Inl e"
      by (cases "map_exc f xs") auto
    from Cons.IH [OF this] show ?thesis by auto
  qed
qed

lemma broadcast_to_Inl:
  "broadcast_to a t = Inl e \<Longrightarrow>
   e = Exc ValueError [''operands could not be broadcast together'']"
  by (auto simp: broadcast_to_def split: if_splits)

lemma attr_msg_not_broadcast:
  "attr_msg attr \<noteq> ''operands could not be broadcast together''"
  by (simp add: attr_msg_def)

text \<open>
  C5 (as the code has it). When the attribute is \<open>None\<close> on every member, the combined
  attribute is \<open>None\<close>. When it is absent on some members only, no default takes its
  place. If the value of the first member has a unit, stripping the units raises (at the
  latest at the first absent member), outside the \<open>try\<close>, and the exception does not
  name the attribute. If the value of the first member has no unit, every value is
  broadcast to its stream's sample shape. If one of them does not broadcast, the
  \<open>ValueError\<close> of \<open>np.broadcast_to\<close> is raised, outside the \<open>try\<close>, and does not name the
  attribute. If all of them do, an absent member contributes a block of \<open>None\<close>, the
  blocks go through the task, a failure of the task is raised with the message naming
  the attribute appended, and a result is indexed with \<open>[0]\<close>: its first row is the
  combined attribute, and what the indexing raises is raised.
\<close>

theorem combine_attr_absent:
  "(list_all (\<lambda>ih. getattr_meta ih attr = None) streams \<longrightarrow>
      combine_attr task convert streams attr = Inr None) \<and>
   (unit_of (getattr_meta (hd streams) attr) = Some u \<and>
    list_ex (\<lambda>ih. getattr_meta ih attr = None) streams \<longrightarrow>
      (\<exists>e. combine_attr task convert streams attr = Inl e \<and>
           attr_msg attr \<notin> set (exc_args e))) \<and>
   (unit_of (getattr_meta (hd streams) attr) = None \<and>
    list_ex (\<lambda>ih. getattr_meta ih attr \<noteq> None) streams \<and>
    map_exc (\<lambda>ih. broadcast_to (as_array (getattr_meta ih attr)) (1 # ih_sample_shape ih))
      streams = Inr blocks \<longrightarrow>
      list_all (\<lambda>(ih, b). getattr_meta ih attr \<noteq> None \<or> b = none_block (ih_sample_shape ih))
        (zip streams blocks) \<and>
      combine_attr task convert streams attr =
        (case task blocks of
           Inl e \<Rightarrow> Inl (add_arg e (attr_msg attr))
         | Inr r \<Rightarrow> bnd (getitem0 r 0) (\<lambda>row0. Inr (Some (Plain row0))))) \<and>
   (unit_of (getattr_meta (hd streams) attr) = None \<and>
    list_ex (\<lambda>ih. getattr_meta ih attr \<noteq> None) streams \<and>
    map_exc (\<lambda>ih. broadcast_to (as_array (getattr_meta ih attr)) (1 # ih_sample_shape ih))
      streams = Inl e \<longrightarrow>
      combine_attr task convert streams attr =
        Inl (Exc ValueError [''operands could not be broadcast together'']) \<and>
      e = Exc ValueError [''operands could not be broadcast together''] \<and>
      attr_msg attr \<notin> set (exc_args e))"
proof (intro conjI impI)
  assume "list_all (\<lambda>ih. getattr_meta ih attr = None) streams"
  then show "combine_attr task convert streams attr = Inr None"
    by (simp add: combine_attr_def list_all_iff)
next
  assume h: "unit_of (getattr_meta (hd streams) attr) = Some u \<and>
    list_ex (\<lambda>ih. getattr_meta ih attr = None) streams"
  let ?vals = "map (\<lambda>ih. getattr_meta ih attr) streams"
  from h have ne: "streams \<noteq> []" by auto
  from h obtain ih where "ih \<in> set streams" "getattr_meta ih attr = None"
    by (auto simp: list_ex_iff)
  then have n: "None \<in> set ?vals" by force
  from h have first: "getattr_meta (hd streams) attr \<noteq> None"
    by (cases "getattr_meta (hd streams) attr") auto
  then have notall: "\<not> list_all (\<lambda>v. v = None) ?vals"
    using ne by (cases streams) auto
  have hd: "hd ?vals = getattr_meta (hd streams) attr"
    using ne by (simp add: hd_map)
  obtain e where e: "map_exc (to_value convert u) ?vals = Inl e"
    and m: "attr_msg attr \<notin> set (exc_args e)"
    using map_exc_to_value_fails [OF n] by blast
  have "combine_attr task convert streams attr = Inl e"
    using notall hd h e by (simp add: combine_attr_def Let_def)
  with m show "\<exists>e. combine_attr task convert streams attr = Inl e \<and>
           attr_msg attr \<notin> set (exc_args e)" by blast
next
  assume h: "unit_of (getattr_meta (hd streams) attr) = None \<and>
    list_ex (\<lambda>ih. getattr_meta ih attr \<noteq> None) streams \<and>
    map_exc (\<lambda>ih. broadcast_to (as_array (getattr_meta ih attr)) (1 # ih_sample_shape ih))
      streams = Inr blocks"
  let ?f = "\<lambda>ih. broadcast_to (as_array (getattr_meta ih attr)) (1 # ih_sample_shape ih)"
  from h have nth: "length blocks = length streams"
    "\<forall>k < length streams. ?f (streams ! k) = Inr (blocks ! k)"
    using map_exc_nth [of ?f streams blocks] by auto
  show "list_all (\<lambda>(ih, b). getattr_meta ih attr \<noteq> None \<or> b = none_block (ih_sample_shape ih))
        (zip streams blocks)"
    unfolding list_all_length
  proof (intro allI impI)
    fix k assume k: "k < length (zip streams blocks)"
    then have "?f (streams ! k) = Inr (blocks ! k)" using nth by simp
    then show "case zip streams blocks ! k of
         (ih, b) \<Rightarrow> getattr_meta ih attr \<noteq> None \<or> b = none_block (ih_sample_shape ih)"
      using k broadcast_to_none [of "ih_sample_shape (streams ! k)"]
      by (cases "getattr_meta (streams ! k) attr") auto
  qed
  let ?vals = "map (\<lambda>ih. getattr_meta ih attr) streams"
  from h have ne: "streams \<noteq> []" by auto
  have hd: "hd ?vals = getattr_meta (hd streams) attr"
    using ne by (simp add: hd_map)
  from h have notall: "\<not> list_all (\<lambda>v. v = None) ?vals"
    by (auto simp: list_ex_iff list_all_iff)
  have z: "map_exc (\<lambda>(a, ih). broadcast_to a (1 # ih_sample_shape ih))
             (zip (map as_array ?vals) streams) = Inr blocks"
    using h map_exc_zip_map [of "\<lambda>a ih. broadcast_to a (1 # ih_sample_shape ih)"
        "\<lambda>ih. as_array (getattr_meta ih attr)" streams]
    by (simp add: comp_def)
  show "combine_attr task convert streams attr =
        (case task blocks of
           Inl e \<Rightarrow> Inl (add_arg e (attr_msg attr))
         | Inr r \<Rightarrow> bnd (getitem0 r 0) (\<lambda>row0. Inr (Some (Plain row0))))"
    using notall hd h z by (simp add: combine_attr_def Let_def split: sum.splits)
next
  assume h: "unit_of (getattr_meta (hd streams) attr) = None \<and>
    list_ex (\<lambda>ih. getattr_meta ih attr \<noteq> None) streams \<and>
    map_exc (\<lambda>ih. broadcast_to (as_array (getattr_meta ih attr)) (1 # ih_sample_shape ih))
      streams = Inl e"
  from h obtain ih where
    "broadcast_to (as_array (getattr_meta ih attr)) (1 # ih_sample_shape ih) = Inl e"
    using map_exc_Inl [of "\<lambda>ih. broadcast_to (as_array (getattr_meta ih attr))
        (1 # ih_sample_shape ih)" streams e] by blast
  from broadcast_to_Inl [OF this]
  have e: "e = Exc ValueError [''operands could not be broadcast together'']" .
  let ?vals = "map (\<lambda>ih. getattr_meta ih attr) streams"
  from h have ne: "streams \<noteq> []" by auto
  have hd: "hd ?vals = getattr_meta (hd streams) attr"
    using ne by (simp add: hd_map)
  from h have notall: "\<not> list_all (\<lambda>v. v = None) ?vals"
    by (auto simp: list_ex_iff list_all_iff)
  have z: "map_exc (\<lambda>(a, ih). broadcast_to a (1 # ih_sample_shape ih))
             (zip (map as_array ?vals) streams) = Inl e"
    using h map_exc_zip_map [of "\<lambda>a ih. broadcast_to a (1 # ih_sample_shape ih)"
        "\<lambda>ih. as_array (getattr_meta ih attr)" streams]
    by (simp add: comp_def)
  have "combine_attr task convert streams attr = Inl e"
    using notall hd h z by (simp add: combine_attr_def Let_def)
  then show "combine_attr task convert streams attr =
        Inl (Exc ValueError [''operands could not be broadcast together''])"
    using e by simp
  show "e = Exc ValueError [''operands could not be broadcast together'']" by (rule e)
  show "attr_msg attr \<notin> set (exc_args e)"
    using e attr_msg_not_broadcast [of attr] by simp
qed

text \<open>
  C5 (as the specification writes it) fails where the first stream has frequencies in
  MHz and the second has none: the values are neither combined nor is the exception one
  that names the attribute.
\<close>

theorem combine_attr_not_named:
  "combine_attr (Concatenate_task None 1) no_convert [stream_a, stream_c] ''frequency'' =
     Inl (Exc AttributeError [''NoneType object has no attribute to_value'']) \<and>
   attr_msg ''frequency'' \<noteq> ''NoneType object has no attribute to_value''"
  by code_simp

text \<open>
  The four cases: no polarization on either stream; frequencies on the first stream
  only; a sideband without unit on the first stream only; and such a sideband that does
  not broadcast.
\<close>

theorem combine_attr_absent_witness:
  "combine_attr (Concatenate_task None 1) no_convert [stream_a, stream_b] ''polarization'' =
     Inr None \<and>
   (\<exists>e. combine_attr (Concatenate_task None 1) no_convert [stream_a, stream_c] ''frequency'' =
          Inl e \<and> attr_msg ''frequency'' \<notin> set (exc_args e)) \<and>
   list_all (\<lambda>(ih, b). getattr_meta ih ''sideband'' \<noteq> None \<or> b = none_block (ih_sample_shape ih))
     (zip [stream_a, stream_c] [\<lparr>shape = [1, 2], data = [Num 1, Num 1]\<rparr>, none_block [3]]) \<and>
   combine_attr (Concatenate_task None 1) no_convert [stream_a, stream_c] ''sideband'' =
     (case Concatenate_task None 1 [\<lparr>shape = [1, 2], data = [Num 1, Num 1]\<rparr>, none_block [3]] of
        Inl e \<Rightarrow> Inl (add_arg e (attr_msg ''sideband''))
      | Inr r \<Rightarrow> bnd (getitem0 r 0) (\<lambda>row0. Inr (Some (Plain row0)))) \<and>
   combine_attr (Concatenate_task None 1) no_convert [stream_d, stream_c] ''sideband'' =
     Inl (Exc ValueError [''operands could not be broadcast together'']) \<and>
   attr_msg ''sideband'' \<notin>
     set (exc_args (Exc ValueError [''operands could not be broadcast together'']))"
proof -
  have h1: "list_all (\<lambda>ih. getattr_meta ih ''polarization'' = None) [stream_a, stream_b]"
    by code_simp
  have h2: "unit_of (getattr_meta (hd [stream_a, stream_c]) ''frequency'') = Some ''MHz'' \<and>
            list_ex (\<lambda>ih. getattr_meta ih ''frequency'' = None) [stream_a, stream_c]"
    by code_simp
  have h3: "unit_of (getattr_meta (hd [stream_a, stream_c]) ''sideband'') = None \<and>
            list_ex (\<lambda>ih. getattr_meta ih ''sideband'' \<noteq> None) [stream_a, stream_c] \<and>
            map_exc (\<lambda>ih. broadcast_to (as_array (getattr_meta ih ''sideband''))
                            (1 # ih_sample_shape ih)) [stream_a, stream_c] =
              Inr [\<lparr>shape = [1, 2], data = [Num 1, Num 1]\<rparr>, none_block [3]]"
    by code_simp
  have h4: "unit_of (getattr_meta (hd [stream_d, stream_c]) ''sideband'') = None \<and>
            list_ex (\<lambda>ih. getattr_meta ih ''sideband'' \<noteq> None) [stream_d, stream_c] \<and>
            map_exc (\<lambda>ih. broadcast_to (as_array (getattr_meta ih ''sideband''))
                            (1 # ih_sample_shape ih)) [stream_d, stream_c] =
              Inl (Exc ValueError [''operands could not be broadcast together''])"
    by code_simp
  note t1 = combine_attr_absent [where task = "Concatenate_task None 1"
      and convert = no_convert and streams = "[stream_a, stream_b]"
      and attr = "''polarization''"]
  note t2 = combine_attr_absent [where task = "Concatenate_task None 1"
      and convert = no_convert and streams = "[stream_a, stream_c]"
      and attr = "''frequency''" and u = "''MHz''"]
  note t3 = combine_attr_absent [where task = "Concatenate_task None 1"
      and convert = no_convert and streams = "[stream_a, stream_c]"
      and attr = "''sideband''"
      and blocks = "[\<lparr>shape = [1, 2], data = [Num 1, Num 1]\<rparr>, none_block [3]]"]
  note t4 = combine_attr_absent [where task = "Concatenate_task None 1"
      and convert = no_convert and streams = "[stream_d, stream_c]"
      and attr = "''sideband''"
      and e = "Exc ValueError [''operands could not be broadcast together'']"]
  note c1 = t1 [THEN conjunct1, THEN mp, OF h1]
  note c2 = t2 [THEN conjunct2, THEN conjunct1, THEN mp, OF h2]
  note c3 = t3 [THEN conjunct2, THEN conjunct2, THEN conjunct1, THEN mp, OF h3]
  note c4 = t4 [THEN conjunct2, THEN conjunct2, THEN conjunct2, THEN mp, OF h4]
  from c1 c2 c3 [THEN conjunct1] c3 [THEN conjunct2] c4 [THEN conjunct1]
    c4 [THEN conjunct2, THEN conjunct2]
  show ?thesis by (intro conjI)
qed

section \<open>Opening a file\<close>














section \<open>Start time\<close>

lemma primary_start_time_value:
  assumes "STT_IMJD (header p) = Some M" "STT_SMJD (header p) = Some S"
    and "STT_OFFS (header p) = Some F"
  shows "PSRFITSPrimaryHDU_start_time p =
           Inr \<lparr>seconds = of_int M * 86400 + (S + F), location = PSRFITSPrimaryHDU_location p\<rparr>"
  using assms by (simp add: PSRFITSPrimaryHDU_start_time_def hget_def)

lemma column_in_names: "column t key = Inr c \<Longrightarrow> key \<in> set (names t)"
  by (auto simp: column_def names_def split: option.splits dest: map_of_SomeD intro: rev_image_eqI)

text \<open>
  C7. With \<open>STT_IMJD = M\<close>, \<open>STT_SMJD = S\<close> and \<open>STT_OFFS = F\<close> in the primary header,
  the primary epoch is day \<open>M\<close> plus \<open>S + F\<close> seconds. When the table has an \<open>OFFS_SUB\<close>
  column whose first row holds \<open>T0\<close>, the start time of the table is that epoch plus
  \<open>T0\<close> minus half a sample period, \<open>samples_per_frame / 2 / sample_rate\<close>; when the
  table has no such column it is the primary epoch. Times are exact reals here.
\<close>

theorem PSRSubintHDU_start_time_offset:
  assumes "STT_IMJD (header (primary_hdu self)) = Some M"
    and "STT_SMJD (header (primary_hdu self)) = Some S"
    and "STT_OFFS (header (primary_hdu self)) = Some F"
  shows "PSRFITSPrimaryHDU_start_time (primary_hdu self) =
           Inr \<lparr>seconds = of_int M * 86400 + (S + F),
                location = PSRFITSPrimaryHDU_location (primary_hdu self)\<rparr> \<and>
         (column (table (hdu self)) ''OFFS_SUB'' = Inr col \<and> shape col = [Suc m] \<and>
          data col = T0 # rest \<and> PSRSubintHDU_sample_rate self = Inr rate \<longrightarrow>
            PSRSubintHDU_start_time self =
              Inr \<lparr>seconds = of_int M * 86400 + (S + F) +
                             (T0 - of_int (PSRSubintHDU_samples_per_frame self) / 2 / rate),
                   location = PSRFITSPrimaryHDU_location (primary_hdu self)\<rparr>) \<and>
         (''OFFS_SUB'' \<notin> set (names (table (hdu self))) \<longrightarrow>
            PSRSubintHDU_start_time self = PSRFITSPrimaryHDU_start_time (primary_hdu self))"
proof (intro conjI impI)
  show p: "PSRFITSPrimaryHDU_start_time (primary_hdu self) =
           Inr \<lparr>seconds = of_int M * 86400 + (S + F),
                location = PSRFITSPrimaryHDU_location (primary_hdu self)\<rparr>"
    by (rule primary_start_time_value [OF assms])
  show "PSRSubintHDU_start_time self = PSRFITSPrimaryHDU_start_time (primary_hdu self)"
    if "''OFFS_SUB'' \<notin> set (names (table (hdu self)))"
    using that p by (simp add: PSRSubintHDU_start_time_def)
  show "PSRSubintHDU_start_time self =
              Inr \<lparr>seconds = of_int M * 86400 + (S + F) +
                             (T0 - of_int (PSRSubintHDU_samples_per_frame self) / 2 / rate),
                   location = PSRFITSPrimaryHDU_location (primary_hdu self)\<rparr>"
    if h: "column (table (hdu self)) ''OFFS_SUB'' = Inr col \<and> shape col = [Suc m] \<and>
          data col = T0 # rest \<and> PSRSubintHDU_sample_rate self = Inr rate"
  proof -
    have n: "''OFFS_SUB'' \<in> set (names (table (hdu self)))"
      using h column_in_names by blast
    have g: "getitem0 col 0 = Inr \<lparr>shape = [], data = [T0]\<rparr>"
      using h by (simp add: getitem0_def py_index_def block_def)
    have i: "item \<lparr>shape = [], data = [T0]\<rparr> = Inr T0"
      by (simp add: item_def)
    show ?thesis
      using h n g i p by (simp add: PSRSubintHDU_start_time_def Let_def)
  qed
qed

text \<open>Both cases, on the table of two rows with and without its offset column.\<close>

theorem PSRSubintHDU_start_time_offset_witness:
  "PSRSubintHDU_start_time one_pol_subint =
     Inr \<lparr>seconds = of_int 55000 * 86400 + (3600 + 1 / 2) +
                    (5 - of_int (PSRSubintHDU_samples_per_frame one_pol_subint) / 2 / (1 / 10)),
          location = PSRFITSPrimaryHDU_location (primary_hdu one_pol_subint)\<rparr> \<and>
   PSRSubintHDU_start_time no_offs_subint =
     PSRFITSPrimaryHDU_start_time (primary_hdu no_offs_subint)"
proof -
  have p1: "STT_IMJD (header (primary_hdu one_pol_subint)) = Some 55000"
    and p2: "STT_SMJD (header (primary_hdu one_pol_subint)) = Some 3600"
    and p3: "STT_OFFS (header (primary_hdu one_pol_subint)) = Some (1 / 2)"
    by (simp_all add: one_pol_subint_def example_primary_hdu_def example_primary_def)
  have q1: "STT_IMJD (header (primary_hdu no_offs_subint)) = Some 55000"
    and q2: "STT_SMJD (header (primary_hdu no_offs_subint)) = Some 3600"
    and q3: "STT_OFFS (header (primary_hdu no_offs_subint)) = Some (1 / 2)"
    by (simp_all add: no_offs_subint_def example_primary_hdu_def example_primary_def)
  have c: "column (table (hdu one_pol_subint)) ''OFFS_SUB'' = Inr \<lparr>shape = [Suc 1], data = 5 # [15]\<rparr>"
    by (simp add: one_pol_subint_def one_pol_hdu_def column_def)
  have r: "PSRSubintHDU_sample_rate one_pol_subint = Inr (1 / 10)"
    by (simp add: PSRSubintHDU_sample_rate_def one_pol_subint_def one_pol_hdu_def column_def)
  have n: "''OFFS_SUB'' \<notin> set (names (table (hdu no_offs_subint)))"
    by (simp add: no_offs_subint_def one_pol_hdu_def names_def)
  show ?thesis
    using PSRSubintHDU_start_time_offset [OF p1 p2 p3, of "\<lparr>shape = [Suc 1], data = 5 # [15]\<rparr>" 1 5 "[15]" "1 / 10"]
      PSRSubintHDU_start_time_offset [OF q1 q2 q3] c r n
    by simp
qed

section \<open>Concatenation and slicing back\<close>

lemma normalize_axis_less: "normalize_axis axis n = Inr ax \<Longrightarrow> ax < n"
  by (auto simp: normalize_axis_def split: if_splits)

lemma same_off_axis_update:
  assumes "same_off_axis ax s t" "ax < length s"
  shows "s[ax := t ! ax] = t"
proof -
  have lt: "ax < length t" using assms by (simp add: same_off_axis_def)
  have "s[ax := t ! ax] = take ax s @ t ! ax # drop (Suc ax) s"
    by (rule upd_conv_take_nth_drop [OF assms(2)])
  also have "\<dots> = take ax t @ t ! ax # drop (Suc ax) t"
    using assms(1) by (simp add: same_off_axis_def)
  also have "\<dots> = t" using id_take_nth_drop [OF lt] by simp
  finally show ?thesis .
qed

text \<open>What a successful concatenation of two arrays is.\<close>

lemma np_concatenate_two:
  assumes "np_concatenate [A, B] axis out = Inr R"
  shows "\<exists>ax. normalize_axis axis (length (shape A)) = Inr ax \<and>
           same_off_axis ax (shape A) (shape B) \<and>
           R = \<lparr>shape = (shape A)[ax := shape A ! ax + shape B ! ax],
                data = concat_data ax [A, B]\<rparr>"
  using assms
  by (auto simp: np_concatenate_def bnd_Inr_iff Let_def split: if_splits option.splits)

lemma Concatenate_task_two:
  assumes "Concatenate_task frame axis [A, B] = Inr R"
  shows "\<exists>out. np_concatenate [A, B] axis out = Inr R"
  using assms by (auto simp: Concatenate_task_def bnd_Inr_iff Let_def)

lemma round_trip_arrays:
  assumes wfA: "wf_array A" and wfB: "wf_array B"
    and ax: "ax < length (shape A)"
    and same: "same_off_axis ax (shape A) (shape B)"
    and R: "R = \<lparr>shape = (shape A)[ax := shape A ! ax + shape B ! ax],
                 data = concat_data ax [A, B]\<rparr>"
  shows "slice_axis ax 0 (shape A ! ax) R = A"
    and "slice_axis ax (shape A ! ax) (shape A ! ax + shape B ! ax) R = B"
proof -
  let ?sA = "shape A" and ?sB = "shape B"
  let ?P = "prod_list (take ax ?sA)"
  let ?q = "prod_list (drop (Suc ax) ?sA)"
  let ?n1 = "?sA ! ax" and ?n2 = "?sB ! ax"
  let ?f = "\<lambda>k. block (?n1 * ?q) k (data A) @ block (?n2 * ?q) k (data B)"
  have axB: "ax < length ?sB" using same ax by (simp add: same_off_axis_def)
  have takeB: "take ax ?sB = take ax ?sA" and dropB: "drop (Suc ax) ?sB = drop (Suc ax) ?sA"
    using same by (simp_all add: same_off_axis_def)
  have lenA: "length (data A) = ?P * (?n1 * ?q)"
    using wfA prod_list_split [OF ax] by (simp add: wf_array_def)
  have lenB: "length (data B) = ?P * (?n2 * ?q)"
    using wfB prod_list_split [OF axB] takeB dropB by (simp add: wf_array_def)
  have dA: "prod_list (drop ax ?sA) = ?n1 * ?q" by (rule prod_list_drop [OF ax])
  have dB: "prod_list (drop ax ?sB) = ?n2 * ?q"
    using prod_list_drop [OF axB] dropB by simp
  have dataR: "data R = concat (map ?f [0..<?P])"
    using R dA dB by (simp add: concat_data_def)
  have shapeR: "shape R = ?sA[ax := ?n1 + ?n2]" using R by simp
  have innerR: "prod_list (drop (Suc ax) (shape R)) = ?q"
    using shapeR by simp
  have outerR: "prod_list (take ax (shape R)) = ?P"
    using shapeR by simp
  have wholeR: "prod_list (drop ax (shape R)) = (?n1 + ?n2) * ?q"
  proof -
    have "ax < length (shape R)" using shapeR ax by simp
    from prod_list_drop [OF this] show ?thesis using shapeR innerR ax by simp
  qed
  have lf: "\<And>k. k < ?P \<Longrightarrow> length (?f k) = (?n1 + ?n2) * ?q"
    using length_block [OF lenA] length_block [OF lenB] by (simp add: add_mult_distrib)
  have blockR: "\<And>k. k < ?P \<Longrightarrow> block ((?n1 + ?n2) * ?q) k (data R) = ?f k"
    unfolding dataR by (rule block_concat_map [where f = ?f, OF lf])
  have firsts: "concat (map (\<lambda>k. take (?n1 * ?q) (block ((?n1 + ?n2) * ?q) k (data R)))
                  [0..<?P]) = data A"
  proof -
    have "map (\<lambda>k. take (?n1 * ?q) (block ((?n1 + ?n2) * ?q) k (data R))) [0..<?P] =
          map (\<lambda>k. block (?n1 * ?q) k (data A)) [0..<?P]"
      using blockR length_block [OF lenA] by (intro map_cong) simp_all
    then have "concat (map (\<lambda>k. take (?n1 * ?q) (block ((?n1 + ?n2) * ?q) k (data R)))
                 [0..<?P]) = concat (map (\<lambda>k. block (?n1 * ?q) k (data A)) [0..<?P])"
      by (rule arg_cong)
    also have "\<dots> = data A" by (rule concat_blocks [OF lenA])
    finally show ?thesis .
  qed
  have seconds: "concat (map (\<lambda>k. take (?n2 * ?q) (drop (?n1 * ?q)
                    (block ((?n1 + ?n2) * ?q) k (data R)))) [0..<?P]) = data B"
  proof -
    have "map (\<lambda>k. take (?n2 * ?q) (drop (?n1 * ?q) (block ((?n1 + ?n2) * ?q) k (data R))))
            [0..<?P] = map (\<lambda>k. block (?n2 * ?q) k (data B)) [0..<?P]"
      using blockR length_block [OF lenA] length_block [OF lenB] by (intro map_cong) simp_all
    then have "concat (map (\<lambda>k. take (?n2 * ?q) (drop (?n1 * ?q)
                 (block ((?n1 + ?n2) * ?q) k (data R)))) [0..<?P]) =
               concat (map (\<lambda>k. block (?n2 * ?q) k (data B)) [0..<?P])"
      by (rule arg_cong)
    also have "\<dots> = data B" by (rule concat_blocks [OF lenB])
    finally show ?thesis .
  qed
  have e1: "\<And>x :: 'a list. take ((?n1 - 0) * ?q) (drop (0 * ?q) x) = take (?n1 * ?q) x"
    by simp
  have e2: "?n1 + ?n2 - ?n1 = ?n2" by simp
  have u1: "(shape R)[ax := ?n1 - 0] = ?sA" using shapeR by simp
  have u2: "(shape R)[ax := ?n2] = ?sB"
    using shapeR same_off_axis_update [OF same ax] by simp
  have "slice_axis ax 0 ?n1 R = \<lparr>shape = ?sA, data = data A\<rparr>"
    unfolding slice_axis_def Let_def innerR outerR wholeR e1 firsts u1 ..
  then show "slice_axis ax 0 ?n1 R = A" by simp
  have "slice_axis ax ?n1 (?n1 + ?n2) R = \<lparr>shape = ?sB, data = data B\<rparr>"
    unfolding slice_axis_def Let_def innerR outerR wholeR e2 seconds u2 ..
  then show "slice_axis ax ?n1 (?n1 + ?n2) R = B" by simp
qed

lemma Concatenate_task_round_trip:
  assumes "wf_array A" "wf_array B" "Concatenate_task frame axis [A, B] = Inr R"
  shows "\<exists>ax. normalize_axis axis (length (shape A)) = Inr ax \<and>
           slice_axis ax 0 (shape A ! ax) R = A \<and>
           slice_axis ax (shape A ! ax) (shape A ! ax + shape B ! ax) R = B"
proof -
  from Concatenate_task_two [OF assms(3)] obtain out where
    "np_concatenate [A, B] axis out = Inr R" by blast
  from np_concatenate_two [OF this] obtain ax where
    n: "normalize_axis axis (length (shape A)) = Inr ax" and
    s: "same_off_axis ax (shape A) (shape B)" and
    R: "R = \<lparr>shape = (shape A)[ax := shape A ! ax + shape B ! ax],
             data = concat_data ax [A, B]\<rparr>"
    by blast
  from round_trip_arrays [OF assms(1,2) normalize_axis_less [OF n] s R] n
  show ?thesis by blast
qed

lemma read_wf:
  assumes "wf_array (ih_content s)" "read s n = Inr (s', A)"
  shows "wf_array A"
proof -
  from assms(2) obtain t ss where
    sh: "shape (ih_content s) = t # ss" and fit: "ih_offset s + n \<le> t" and
    A: "A = \<lparr>shape = n # ss,
             data = take (n * prod_list ss) (drop (ih_offset s * prod_list ss) (data (ih_content s)))\<rparr>"
    by (auto simp: read_def split: list.splits if_splits)
  have "length (data (ih_content s)) = t * prod_list ss"
    using assms(1) sh by (simp add: wf_array_def)
  moreover have "(ih_offset s + n) * prod_list ss \<le> t * prod_list ss"
    using fit by (rule mult_le_mono1)
  ultimately show ?thesis using A by (simp add: wf_array_def add_mult_distrib)
qed

text \<open>
  C8. Two members whose samples fill their shapes are combined by concatenation along
  an axis. Whenever a frame is read, it comes from the two blocks \<open>A\<close> and \<open>B\<close> that the
  members deliver for that frame, and slicing the frame along the (normalised) axis at
  \<open>0 : n1\<close> and \<open>n1 : n1 + n2\<close>, with \<open>n1\<close> and \<open>n2\<close> the extents of \<open>A\<close> and \<open>B\<close> along
  the axis, gives back \<open>A\<close> and \<open>B\<close>. This holds for every axis the concatenation accepts,
  the sample axes among them, and whether or not the frame buffer is reused.
\<close>

theorem read_frame_concatenate_round_trip:
  assumes "wf_array (ih_content s1)" and "wf_array (ih_content s2)"
    and "read_frame (Concatenate_task frame axis) spf [s1, s2] i = Inr (members, R)"
  shows "\<exists>s1' s2' A B ax.
           read (seek s1 (i * spf)) spf = Inr (s1', A) \<and>
           read (seek s2 (i * spf)) spf = Inr (s2', B) \<and>
           normalize_axis axis (length (shape A)) = Inr ax \<and>
           slice_axis ax 0 (shape A ! ax) R = A \<and>
           slice_axis ax (shape A ! ax) (shape A ! ax + shape B ! ax) R = B"
proof -
  from assms(3) obtain s1' s2' A B where
    r1: "read (seek s1 (i * spf)) spf = Inr (s1', A)" and
    r2: "read (seek s2 (i * spf)) spf = Inr (s2', B)" and
    t: "Concatenate_task frame axis [A, B] = Inr R"
    by (auto simp: read_frame_def bnd_Inr_iff)
  have "wf_array A" using read_wf [OF _ r1] assms(1) by (simp add: seek_def)
  moreover have "wf_array B" using read_wf [OF _ r2] assms(2) by (simp add: seek_def)
  ultimately show ?thesis
    using Concatenate_task_round_trip [OF _ _ t] r1 r2 by blast
qed

text \<open>The second frame of one sample of the two streams, joined along the last axis.\<close>

theorem read_frame_concatenate_round_trip_witness:
  "\<exists>s1' s2' A B ax.
     read (seek stream_a (1 * 1)) 1 = Inr (s1', A) \<and>
     read (seek stream_b (1 * 1)) 1 = Inr (s2', B) \<and>
     normalize_axis (- 1) (length (shape A)) = Inr ax \<and>
     slice_axis ax 0 (shape A ! ax) \<lparr>shape = [1, 5], data = [Num 3, Num 4, Num 8, Num 9, Num 10]\<rparr> = A \<and>
     slice_axis ax (shape A ! ax) (shape A ! ax + shape B ! ax)
       \<lparr>shape = [1, 5], data = [Num 3, Num 4, Num 8, Num 9, Num 10]\<rparr> = B"
proof -
  have w1: "wf_array (ih_content stream_a)" by code_simp
  have w2: "wf_array (ih_content stream_b)" by code_simp
  have r: "read_frame (Concatenate_task None (- 1)) 1 [stream_a, stream_b] 1 =
             Inr ([stream_a\<lparr>ih_offset := 2\<rparr>, stream_b\<lparr>ih_offset := 2\<rparr>],
                  \<lparr>shape = [1, 5], data = [Num 3, Num 4, Num 8, Num 9, Num 10]\<rparr>)"
    by code_simp
  show ?thesis by (rule read_frame_concatenate_round_trip [OF w1 w2 r])
qed

section \<open>Row indices of \<open>read_data_row\<close>\<close>

lemma is_eof_bnd: "is_eof (bnd m f) = (is_eof m \<or> (\<exists>x. m = Inr x \<and> is_eof (f x)))"
  by (cases m) (simp_all add: is_eof_def)

lemma is_eof_simps [simp]: "is_eof (Inr x) = False" "is_eof (Inl (Exc k a)) = (k = EOFError)"
  by (simp_all add: is_eof_def)

lemma sub_scalar_not_eof: "\<not> is_eof (sub_scalar a v)"
  by (simp add: sub_scalar_def split: option.splits)

lemma decode_row_not_eof: "\<not> is_eof (decode_row self row w)"
  unfolding decode_row_def Let_def
  by (auto simp: is_eof_bnd row_get_def nd_binop_def nd_binop_inplace_def sub_scalar_not_eof
      split: option.splits if_splits)

lemma read_data_row_at_nrow:
  "nrow self = Inr n \<Longrightarrow>
   read_data_row self n w = Inl (Exc EOFError [''cannot read from beyond end of input SUBINT HDU.''])"
  by (simp add: read_data_row_def)

lemma py_index_negative:
  assumes "- int n \<le> i" "i < 0"
  shows "py_index n i = Inr (nat (int n + i))" "py_index n (int n + i) = Inr (nat (int n + i))"
  using assms by (simp_all add: py_index_def Let_def)

text \<open>
  C10. The table of one row with two polarizations and two channels passes the
  verification of the wrapper and has \<open>n_rows = 1\<close>. The index \<open>-1\<close> lies in
  \<open>-n_rows \<le> i < 0\<close> and passes the bound check, so the call is not the end-of-stream
  condition; but it does not return the decoded data of row \<open>n_rows + i = 0\<close>: the scale
  column, reshaped to \<open>(4, 1)\<close>, cannot be broadcast against the \<open>(2, 2, 2)\<close> data of the
  row, and the call raises.
\<close>

theorem read_data_row_two_pol_negative_index:
  "SubintHDU_init two_pol_hdu example_primary_hdu = Inr two_pol_subint \<and>
   nrow two_pol_subint = Inr 1 \<and>
   \<not> is_eof (read_data_row two_pol_subint (- 1) False) \<and>
   read_data_row two_pol_subint (- 1) False =
     Inl (Exc ValueError [''operands could not be broadcast together'']) \<and>
   read_data_row two_pol_subint (- 1) True =
     Inl (Exc ValueError [''operands could not be broadcast together''])"
  by code_simp

text \<open>
  What the claim says of the indices holds for every table of \<open>n\<close> rows
  (\<open>NAXIS2 = n\<close>): for \<open>-n \<le> i < 0\<close> the call is not the end-of-stream condition, since
  the bound check only rejects \<open>i \<ge> n\<close>; the table is indexed as Python does, so the call
  decodes row \<open>n + i\<close> and gives what \<open>read_data_row(n + i)\<close> gives.
\<close>

lemma read_data_row_negative_index:
  assumes "nrow self = Inr n" and "int (nrows (table (hdu self))) = n"
    and "- n \<le> i" and "i < 0"
  shows "read_data_row self i w = read_data_row self (n + i) w \<and>
         \<not> is_eof (read_data_row self i w) \<and>
         (\<exists>row. table_row (table (hdu self)) (n + i) = Inr row \<and>
                read_data_row self i w = decode_row self row w)"
proof -
  let ?t = "table (hdu self)"
  let ?row = "map (\<lambda>(key, c). (key, cell (nat (n + i)) c)) (columns ?t)"
  have neg: "table_row ?t i = Inr ?row"
    using assms py_index_negative(1) [of "nrows ?t" i] by (simp add: table_row_def)
  have pos: "table_row ?t (n + i) = Inr ?row"
    using assms py_index_negative(2) [of "nrows ?t" i] by (simp add: table_row_def)
  have a: "read_data_row self i w = decode_row self ?row w"
    using assms neg by (simp add: read_data_row_def)
  have b: "read_data_row self (n + i) w = decode_row self ?row w"
    using assms pos by (simp add: read_data_row_def)
  show ?thesis using a b pos decode_row_not_eof [of self ?row w] by simp
qed

text \<open>
  For tables of one polarization the row is then decoded, and the call returns it: row
  \<open>n + i\<close> of a table of \<open>n\<close> rows of one polarization, \<open>C\<close> channels and \<open>B\<close> bins, read
  with a negative index and without weighting.
\<close>

lemma read_data_row_negative_one_pol:
  assumes n: "nrow self = Inr (int n)" "nrows (table (hdu self)) = n"
    and i: "- int n \<le> i" "i < 0"
    and d: "column (table (hdu self)) ''DATA'' = Inr d" "shape d = [n, 1, C, B]"
      "length (data d) = n * (C * B)"
    and s: "column (table (hdu self)) ''DAT_SCL'' = Inr s" "prod_list (tl (shape s)) = C"
      "length (data s) = n * C"
    and f: "column (table (hdu self)) ''DAT_OFFS'' = Inr f" "prod_list (tl (shape f)) = C"
      "length (data f) = n * C"
    and z: "scalar_of (zero_off_of (header (hdu self))) = Some z"
  shows "read_data_row self i False =
           Inr (calibrated C B z (block C (nat (int n + i)) (data s))
                  (block C (nat (int n + i)) (data f))
                  (block (C * B) (nat (int n + i)) (data d)))"
proof -
  let ?j = "nat (int n + i)"
  have j: "?j < n" and ij: "int n + i = int ?j" using i by simp_all
  have n2: "int (nrows (table (hdu self))) = int n" using n(2) by simp
  have "read_data_row self i False = read_data_row self (int n + i) False"
    using read_data_row_negative_index [OF n(1) n2 i, of False] by simp
  also have "\<dots> = read_data_row self (int ?j) False" using ij by simp
  also have "\<dots> = Inr (calibrated C B z (block C ?j (data s)) (block C ?j (data f))
                  (block (C * B) ?j (data d)))"
    by (rule read_data_row_one_pol [OF n j d s f z])
  finally show ?thesis .
qed

text \<open>The last of two rows of one polarization, read with index \<open>-1\<close> and weighted.\<close>

lemma read_data_row_negative_index_example:
  "read_data_row one_pol_subint (- 1) True =
     Inr \<lparr>shape = [1, 2, 2], data = [20, 22, 0, 0]\<rparr>"
  by code_simp

text \<open>
  C9. The table of one row with two polarizations and two channels passes the
  verification of the wrapper. Reading at the row count is the end-of-stream condition;
  reading the last row does not succeed: the scale column, reshaped to \<open>(4, 1)\<close>, cannot
  be broadcast against the \<open>(2, 2, 2)\<close> data of the row.
\<close>

theorem read_data_row_two_pol_last_row:
  "SubintHDU_init two_pol_hdu example_primary_hdu = Inr two_pol_subint \<and>
   nrow two_pol_subint = Inr 1 \<and>
   read_data_row two_pol_subint 1 False =
     Inl (Exc EOFError [''cannot read from beyond end of input SUBINT HDU.'']) \<and>
   read_data_row two_pol_subint (1 - 1) False =
     Inl (Exc ValueError [''operands could not be broadcast together''])"
  by code_simp

text \<open>
  The bound itself is as C9 says, for every table: reading at the row count is the
  end-of-stream condition (\<open>read_data_row_at_nrow\<close>), and an index below it passes the
  check. For tables of one polarization the last row, like every row, is then decoded
  (\<open>read_data_row_one_pol\<close>).
\<close>

lemma read_data_row_last_one_pol:
  assumes "nrow self = Inr (int (Suc m))" "nrows (table (hdu self)) = Suc m"
    and "column (table (hdu self)) ''DATA'' = Inr d" "shape d = [Suc m, 1, C, B]"
      "length (data d) = Suc m * (C * B)"
    and "column (table (hdu self)) ''DAT_SCL'' = Inr s" "prod_list (tl (shape s)) = C"
      "length (data s) = Suc m * C"
    and "column (table (hdu self)) ''DAT_OFFS'' = Inr f" "prod_list (tl (shape f)) = C"
      "length (data f) = Suc m * C"
    and "scalar_of (zero_off_of (header (hdu self))) = Some z"
  shows "\<exists>r. read_data_row self (int (Suc m) - 1) False = Inr r"
proof -
  have "read_data_row self (int m) False =
          Inr (calibrated C B z (block C m (data s)) (block C m (data f))
                 (block (C * B) m (data d)))"
    by (rule read_data_row_one_pol [OF assms(1,2) _ assms(3-12)]) simp
  then show ?thesis by simp
qed

end
